theory Spec2Isabelle
  imports Main "HOL-Library.AList" "HOL-Library.Product_Lexorder" "HOL-Library.Multiset"
begin

section \<open>JavaScript numbers and strings used by ColorUtils\<close>

text \<open>
  Strings are lists of 8-bit characters (code units below 256).  A JavaScript number is
  modelled by its exact value when it is an integer, with \<open>NaN\<close> and the two infinities
  as separate values; the 32-bit operators \<open>>>\<close>, \<open><<\<close> and \<open>&\<close> first apply
  \<open>ToInt32\<close>, which is written out with \<open>mod 2 ^ 32\<close>.
\<close>

datatype jsnum = NaN | PosInfinity | NegInfinity | Num int

definition ToInt32 :: "jsnum \<Rightarrow> int" where
  "ToInt32 x = (case x of Num n \<Rightarrow> (n + 2 ^ 31) mod 2 ^ 32 - 2 ^ 31 | _ \<Rightarrow> 0)"

definition sar :: "int \<Rightarrow> nat \<Rightarrow> int" where
  \<comment> \<open>\<open>x >> k\<close> on an int32: the arithmetic shift is the floor division.\<close>
  "sar x k = x div 2 ^ k"

definition shl :: "int \<Rightarrow> nat \<Rightarrow> int" where
  \<comment> \<open>\<open>x << k\<close>: the product wrapped to an int32.\<close>
  "shl x k = ToInt32 (Num (ToInt32 (Num x) * 2 ^ k))"

definition and255 :: "int \<Rightarrow> int" where
  \<comment> \<open>\<open>x & 255\<close>: the low eight bits of the two's complement of \<open>x\<close>.\<close>
  "and255 x = x mod 256"

definition hexDigitValue :: "char \<Rightarrow> nat option" where
  "hexDigitValue c =
     (let n = (of_char c :: nat) in
      if 48 \<le> n \<and> n \<le> 57 then Some (n - 48)
      else if 65 \<le> n \<and> n \<le> 70 then Some (n - 55)
      else if 97 \<le> n \<and> n \<le> 102 then Some (n - 87)
      else None)"

fun hexPrefixValue :: "string \<Rightarrow> nat \<Rightarrow> nat" where
  "hexPrefixValue [] acc = acc"
| "hexPrefixValue (c # cs) acc =
     (case hexDigitValue c of None \<Rightarrow> acc | Some d \<Rightarrow> hexPrefixValue cs (16 * acc + d))"

definition isWhiteSpace :: "char \<Rightarrow> bool" where
  "isWhiteSpace c = ((of_char c :: nat) \<in> {9, 10, 11, 12, 13, 32, 160})"

fun bitLength :: "nat \<Rightarrow> nat" where
  "bitLength n = (if n = 0 then 0 else Suc (bitLength (n div 2)))"

definition roundToDouble :: "nat \<Rightarrow> nat" where
  \<comment> \<open>The integer nearest to \<open>n\<close> with a 53-bit significand, ties to even.\<close>
  "roundToDouble n =
     (if n < 2 ^ 53 then n
      else let e = bitLength n - 53; q = n div 2 ^ e; rest = n mod 2 ^ e;
               q' = (if 2 * rest > 2 ^ e \<or> (2 * rest = 2 ^ e \<and> odd q) then q + 1 else q)
           in q' * 2 ^ e)"

definition parseInt16 :: "string \<Rightarrow> jsnum" where
  \<comment> \<open>\<open>parseInt(s, 16)\<close>: leading white space, a sign and a \<open>0x\<close> prefix are skipped, then
      the longest prefix of hexadecimal digits is read; no digit gives \<open>NaN\<close>.\<close>
  "parseInt16 s =
     (let s1 = dropWhile isWhiteSpace s;
          neg = (case s1 of c # _ \<Rightarrow> c = CHR ''-'' | [] \<Rightarrow> False);
          s2 = (case s1 of c # cs \<Rightarrow> if c = CHR ''-'' \<or> c = CHR ''+'' then cs else s1 | [] \<Rightarrow> s1);
          s3 = (case s2 of c # d # cs \<Rightarrow>
                  if c = CHR ''0'' \<and> (d = CHR ''x'' \<or> d = CHR ''X'') then cs else s2
                | _ \<Rightarrow> s2)
      in case s3 of
           [] \<Rightarrow> NaN
         | c # _ \<Rightarrow>
             if hexDigitValue c = None then NaN
             else let v = roundToDouble (hexPrefixValue s3 0) in
                  if v \<ge> 2 ^ 1024 then (if neg then NegInfinity else PosInfinity)
                  else Num (if neg then - int v else int v))"

section \<open>ColorUtils: hex codec, distance and nearest match\<close>

type_synonym color = string
type_synonym rgb = "int \<times> int \<times> int"

definition hexToRgb :: "string \<Rightarrow> rgb" where
  "hexToRgb hex =
     (let hex' = (case hex of c # cs \<Rightarrow> if c = CHR ''#'' then cs else hex | [] \<Rightarrow> hex);
          bigint = ToInt32 (parseInt16 hex')
      in (and255 (sar bigint 16), and255 (sar bigint 8), and255 bigint))"

definition digitChar :: "nat \<Rightarrow> char" where
  "digitChar d = ''0123456789abcdef'' ! d"

fun hexDigits :: "nat \<Rightarrow> string" where
  "hexDigits n = (if n < 16 then [digitChar n] else hexDigits (n div 16) @ [digitChar (n mod 16)])"

declare hexDigits.simps [simp del]

definition toString16 :: "int \<Rightarrow> string" where
  "toString16 n = (if n < 0 then CHR ''-'' # hexDigits (nat (- n)) else hexDigits (nat n))"

definition upperChar :: "char \<Rightarrow> char" where
  \<comment> \<open>\<open>toUpperCase\<close> on one ASCII character.\<close>
  "upperChar c =
     (case map_of (zip ''abcdefghijklmnopqrstuvwxyz'' ''ABCDEFGHIJKLMNOPQRSTUVWXYZ'') c of
        Some u \<Rightarrow> u
      | None \<Rightarrow> c)"

definition toUpperCase :: "string \<Rightarrow> string" where
  "toUpperCase s = map upperChar s"

definition rgbToHex :: "int \<Rightarrow> int \<Rightarrow> int \<Rightarrow> string" where
  "rgbToHex r g b =
     CHR ''#'' # toUpperCase (drop 1 (toString16 (shl 1 24 + shl r 16 + shl g 8 + b)))"

definition hexChar :: "nat \<Rightarrow> char" where
  \<comment> \<open>The upper-case hexadecimal digit of a value below 16, as \<open>rgbToHex\<close> prints it.\<close>
  "hexChar v = upperChar (digitChar v)"

definition isValidHex :: "string \<Rightarrow> bool" where
  \<comment> \<open>The test of the regular expression \<open>/^#?([0-9A-F]{3}|[0-9A-F]{6})$/i\<close>.\<close>
  "isValidHex hex =
     (let s = (case hex of c # cs \<Rightarrow> if c = CHR ''#'' then cs else hex | [] \<Rightarrow> hex)
      in (length s = 3 \<or> length s = 6) \<and> list_all (\<lambda>c. hexDigitValue c \<noteq> None) s)"

definition isCanonical :: "string \<Rightarrow> bool" where
  \<comment> \<open>The canonical form \<open>#RRGGBB\<close> with upper-case digits.\<close>
  "isCanonical c =
     (case c of
        [] \<Rightarrow> False
      | h # ds \<Rightarrow> h = CHR ''#'' \<and> length ds = 6
                 \<and> list_all (\<lambda>d. d \<in> set ''0123456789ABCDEF'') ds)"

definition sqDistance :: "rgb \<Rightarrow> rgb \<Rightarrow> int" where
  \<comment> \<open>The argument of \<open>Math.sqrt\<close> in \<open>colorDistance\<close>.  Channels are integers of at most
      eight bits, so the sum is exact and the square roots of two different sums are
      different doubles: comparing distances is comparing these sums.\<close>
  "sqDistance p q =
     (case p of (r1, g1, b1) \<Rightarrow> case q of (r2, g2, b2) \<Rightarrow>
        (r1 - r2) ^ 2 + (g1 - g2) ^ 2 + (b1 - b2) ^ 2)"

definition closer :: "int \<Rightarrow> int option \<Rightarrow> bool" where
  \<comment> \<open>\<open>distance < minDistance\<close>, where \<open>None\<close> is the initial \<open>Infinity\<close>
      (\<open>Number.MAX_VALUE\<close> in the older copies).\<close>
  "closer d m = (case m of None \<Rightarrow> True | Some e \<Rightarrow> d < e)"

fun closestLoop :: "rgb \<Rightarrow> color list \<Rightarrow> color option \<Rightarrow> int option \<Rightarrow> color option" where
  "closestLoop target [] closestColor minDistance = closestColor"
| "closestLoop target (paletteColor # rest) closestColor minDistance =
     (let distance = sqDistance target (hexToRgb paletteColor) in
      if closer distance minDistance
      then closestLoop target rest (Some paletteColor) (Some distance)
      else closestLoop target rest closestColor minDistance)"

definition findClosestColor :: "color \<Rightarrow> color list \<Rightarrow> color option" where
  \<comment> \<open>The result \<open>None\<close> is JavaScript's \<open>undefined\<close>, the value of \<open>palette[0]\<close> on an
      empty array.\<close>
  "findClosestColor color palette =
     closestLoop (hexToRgb color) palette
       (case palette of [] \<Rightarrow> None | p # _ \<Rightarrow> Some p) None"

section \<open>JavaScript objects: property order and inherited members\<close>

text \<open>
  A plain object is the association list of its own properties in insertion order:
  \<open>obj[k] = v\<close> is \<open>AList.update k v\<close> (the value is replaced in place, a new key is
  appended).  \<open>Object.keys\<close>, \<open>Object.entries\<close> and \<open>for ... in\<close> list the keys that are
  array indices first, in ascending numeric order, and then the other keys in insertion
  order.  Reading \<open>obj[k]\<close> finds an own property first and then a member of
  \<open>Object.prototype\<close>.
\<close>

definition isDigit :: "char \<Rightarrow> bool" where
  "isDigit c = (48 \<le> (of_char c :: nat) \<and> (of_char c :: nat) \<le> 57)"

fun decimalValue :: "string \<Rightarrow> nat \<Rightarrow> nat" where
  "decimalValue [] acc = acc"
| "decimalValue (c # cs) acc = decimalValue cs (10 * acc + ((of_char c :: nat) - 48))"

definition isArrayIndex :: "string \<Rightarrow> bool" where
  \<comment> \<open>The canonical decimal text of an integer from 0 to \<open>2 ^ 32 - 2\<close>.\<close>
  "isArrayIndex s =
     (case s of
        [] \<Rightarrow> False
      | c # cs \<Rightarrow> list_all isDigit s \<and> (cs = [] \<or> c \<noteq> CHR ''0'')
                 \<and> decimalValue s 0 < 2 ^ 32 - 1)"

definition objectEntries :: "(string \<times> 'a) list \<Rightarrow> (string \<times> 'a) list" where
  \<comment> \<open>\<open>Object.entries(obj)\<close>.\<close>
  "objectEntries obj =
     sort_key (\<lambda>(key, v). decimalValue key 0) (filter (\<lambda>(key, v). isArrayIndex key) obj)
     @ filter (\<lambda>(key, v). \<not> isArrayIndex key) obj"

definition objectKeys :: "(string \<times> 'a) list \<Rightarrow> string list" where
  \<comment> \<open>\<open>Object.keys(obj)\<close>.\<close>
  "objectKeys obj = map fst (objectEntries obj)"

datatype jsvalue = Str string | Member string

text \<open>
  \<open>Member name\<close> is the value of the property \<open>name\<close> of \<open>Object.prototype\<close>: a native
  function, and for \<open>__proto__\<close> the prototype object itself.
\<close>

definition objectPrototypeKeys :: "string list" where
  "objectPrototypeKeys =
     [''constructor'', ''__defineGetter__'', ''__defineSetter__'', ''hasOwnProperty'',
      ''__lookupGetter__'', ''__lookupSetter__'', ''isPrototypeOf'', ''propertyIsEnumerable'',
      ''toString'', ''valueOf'', ''__proto__'', ''toLocaleString'']"

definition getProperty :: "(string \<rightharpoonup> string) \<Rightarrow> string \<Rightarrow> jsvalue option" where
  \<comment> \<open>\<open>obj[name]\<close> on an object literal whose own properties hold strings; \<open>None\<close> is
      \<open>undefined\<close>.\<close>
  "getProperty obj name =
     (case obj name of
        Some v \<Rightarrow> Some (Str v)
      | None \<Rightarrow> if name \<in> set objectPrototypeKeys then Some (Member name) else None)"

definition truthyValue :: "jsvalue \<Rightarrow> bool" where
  \<comment> \<open>A string is truthy unless it is empty; a function or an object is truthy.\<close>
  "truthyValue v = (case v of Str s \<Rightarrow> s \<noteq> [] | Member name \<Rightarrow> True)"

definition memberText :: "string \<Rightarrow> string" where
  \<comment> \<open>The string a member of \<open>Object.prototype\<close> converts to, in the form V8 prints a
      native function.\<close>
  "memberText name =
     (if name = ''__proto__'' then ''[object Object]''
      else if name = ''constructor'' then ''function Object() { [native code] }''
      else ''function '' @ name @ ''() { [native code] }'')"

definition toPropertyKey :: "jsvalue option \<Rightarrow> string" where
  \<comment> \<open>The property key that a value used in \<open>obj[value]\<close> converts to.\<close>
  "toPropertyKey v =
     (case v of
        None \<Rightarrow> ''undefined''
      | Some (Str s) \<Rightarrow> s
      | Some (Member name) \<Rightarrow> memberText name)"

section \<open>GemGrid: cells, selection and history\<close>

text \<open>
  The cell map is a plain object with the keys \<open>col,row\<close>, none of which is an array
  index: it is the association list of its cells in insertion order, \<open>obj[k] = v\<close> is
  \<open>AList.update k v\<close> and \<open>obj[k]\<close> on a key of the object is \<open>map_of obj k\<close>.  A \<open>Set\<close>
  of strings is the list of its elements in insertion order.  \<open>Date.now()\<close> is a
  parameter of every function that reads the clock.  The class \<open>HexGrid\<close> of the bead
  variant has the same state, with the cell map named \<open>hexColors\<close>.
\<close>

type_synonym cellmap = "(string \<times> color) list"

record snapshot =
  snap_gemColors :: cellmap
  timestamp :: int

record GemGrid =
  cols :: int
  rows :: int
  gemColors :: cellmap
  selectedCells :: "string list"
  history :: "snapshot list"
  historyIndex :: int

datatype jserror = TypeError | SyntaxError

type_synonym 'a outcome = "(jserror \<times> 'a) + 'a"

definition defaultColor :: color where
  "defaultColor = ''#FFFFFF''"

definition jsonClone :: "cellmap \<Rightarrow> cellmap" where
  \<comment> \<open>\<open>JSON.parse(JSON.stringify(m))\<close> on an object of strings: an equal value that shares
      nothing with \<open>m\<close>.  Values are immutable here, so the copy is the value.\<close>
  "jsonClone m = m"

definition slice0 :: "'a list \<Rightarrow> int \<Rightarrow> 'a list" where
  \<comment> \<open>\<open>xs.slice(0, e)\<close>; a negative end counts from the end of the array.\<close>
  "slice0 xs e = (if e < 0 then take (nat (int (length xs) + e)) xs else take (nat e) xs)"

fun showNat :: "nat \<Rightarrow> string" where
  "showNat n =
     (if n < 10 then [''0123456789'' ! n] else showNat (n div 10) @ [''0123456789'' ! (n mod 10)])"

definition cellKey :: "nat \<Rightarrow> nat \<Rightarrow> string" where
  "cellKey col row = showNat col @ '','' @ showNat row"

definition calculateDimensions :: "GemGrid \<Rightarrow> GemGrid" where
  \<comment> \<open>gemGrid.js and hexGrid.js: the geometry is computed for the target grid, and the
      grid takes the target dimensions.\<close>
  "calculateDimensions g = g\<lparr>cols := 64, rows := 40\<rparr>"

definition initializeGrid :: "GemGrid \<Rightarrow> GemGrid" where
  "initializeGrid g =
     g\<lparr>gemColors :=
         fold (\<lambda>row cells.
                 fold (\<lambda>col cells'. AList.update (cellKey col row) defaultColor cells')
                      [0 ..< nat (cols g)] cells)
              [0 ..< nat (rows g)] (gemColors g)\<rparr>"

definition GemGrid_new :: "int \<Rightarrow> int \<Rightarrow> GemGrid" where
  "GemGrid_new c r =
     initializeGrid (calculateDimensions
       \<lparr>cols = c, rows = r, gemColors = [], selectedCells = [], history = [],
        historyIndex = - 1\<rparr>)"

definition HexGrid_new :: "int \<Rightarrow> int \<Rightarrow> GemGrid" where
  \<comment> \<open>The bead variant of HexGrid: its \<open>calculateDimensions\<close> changes the geometry only.\<close>
  "HexGrid_new c r =
     initializeGrid
       \<lparr>cols = c, rows = r, gemColors = [], selectedCells = [], history = [],
        historyIndex = - 1\<rparr>"

definition saveState :: "int \<Rightarrow> GemGrid \<Rightarrow> GemGrid" where
  "saveState now g =
     (let h1 = (if historyIndex g < int (length (history g)) - 1
                then slice0 (history g) (historyIndex g + 1) else history g);
          colorsCopy = jsonClone (gemColors g);
          h2 = h1 @ [\<lparr>snap_gemColors = colorsCopy, timestamp = now\<rparr>];
          i2 = int (length h2) - 1
      in if length h2 > 50
         then g\<lparr>history := tl h2, historyIndex := i2 - 1\<rparr>
         else g\<lparr>history := h2, historyIndex := i2\<rparr>)"

definition restoreAt :: "int \<Rightarrow> GemGrid \<Rightarrow> GemGrid outcome" where
  \<comment> \<open>The two statements shared by \<open>undo\<close> and \<open>redo\<close> once the index is chosen:
      \<open>this.historyIndex = i; this.gemColors = clone(this.history[i].gemColors)\<close>.
      Reading a field of the undefined \<open>history[i]\<close> throws, with the index already
      written.\<close>
  "restoreAt i g =
     (let g1 = g\<lparr>historyIndex := i\<rparr> in
      if 0 \<le> i \<and> i < int (length (history g))
      then Inr (g1\<lparr>gemColors := jsonClone (snap_gemColors (history g ! nat i))\<rparr>)
      else Inl (TypeError, g1))"

definition undo :: "GemGrid \<Rightarrow> GemGrid outcome" where
  "undo g = (if historyIndex g > 0 then restoreAt (historyIndex g - 1) g else Inr g)"

definition redo :: "GemGrid \<Rightarrow> GemGrid outcome" where
  "redo g =
     (if historyIndex g < int (length (history g)) - 1 then restoreAt (historyIndex g + 1) g
      else Inr g)"

definition applyColorToSelection :: "color \<Rightarrow> int \<Rightarrow> GemGrid \<Rightarrow> GemGrid" where
  "applyColorToSelection color now g =
     (if length (selectedCells g) = 0 then g
      else let g1 = saveState now g in
           g1\<lparr>gemColors :=
                fold (\<lambda>key cells. AList.update key color cells) (selectedCells g1)
                     (gemColors g1)\<rparr>)"

definition clearGrid :: "int \<Rightarrow> GemGrid \<Rightarrow> GemGrid" where
  "clearGrid now g = (initializeGrid (saveState now g))\<lparr>selectedCells := []\<rparr>"

definition getAllColors :: "GemGrid \<Rightarrow> color list" where
  "getAllColors g =
     fold (\<lambda>c seen. if c \<in> set seen then seen else seen @ [c]) (map snd (gemColors g)) []"

definition getColorCounts :: "GemGrid \<Rightarrow> (color \<times> int) list" where
  "getColorCounts g =
     fold (\<lambda>c counts.
             AList.update c ((case map_of counts c of None \<Rightarrow> 0 | Some n \<Rightarrow> n) + 1) counts)
          (map snd (gemColors g)) []"

subsection \<open>The history as a state machine\<close>

datatype historyOp = Snapshot int | Undo | Redo

fun step :: "historyOp \<Rightarrow> GemGrid \<Rightarrow> GemGrid outcome" where
  "step (Snapshot now) g = Inr (saveState now g)"
| "step Undo g = undo g"
| "step Redo g = redo g"

fun run :: "historyOp list \<Rightarrow> GemGrid \<Rightarrow> GemGrid outcome" where
  "run [] g = Inr g"
| "run (x # xs) g = (case step x g of Inl e \<Rightarrow> Inl e | Inr g' \<Rightarrow> run xs g')"

definition historyInv :: "GemGrid \<Rightarrow> bool" where
  "historyInv g =
     (- 1 \<le> historyIndex g \<and> historyIndex g < int (length (history g))
      \<and> length (history g) \<le> 50)"

definition snapOf :: "int \<Rightarrow> GemGrid \<Rightarrow> snapshot" where
  \<comment> \<open>The history entry that \<open>saveState\<close> builds from the live cells.\<close>
  "snapOf now g = \<lparr>snap_gemColors = gemColors g, timestamp = now\<rparr>"

definition emptyGrid :: GemGrid where
  "emptyGrid = HexGrid_new 0 0"

definition undoButton_click :: "GemGrid \<Rightarrow> GemGrid outcome" where
  \<comment> \<open>The click handler of the undo button in appGem.js.  It reads the field
      \<open>hexColors\<close> of the history entry, which the entries of a GemGrid do not have:
      \<open>JSON.stringify(undefined)\<close> is \<open>undefined\<close> and \<open>JSON.parse(undefined)\<close> throws a
      SyntaxError, after the index has been written.\<close>
  "undoButton_click g =
     (if historyIndex g > 0
      then let i = historyIndex g - 1; g1 = g\<lparr>historyIndex := i\<rparr> in
           if 0 \<le> i \<and> i < int (length (history g)) then Inl (SyntaxError, g1)
           else Inl (TypeError, g1)
      else Inr g)"

subsection \<open>HexGrid of hexGrid.js\<close>

text \<open>
  In hexGrid.js \<open>undo\<close> and \<open>redo\<close> assign a clone of the whole history entry to
  \<open>hexColors\<close>, so the cell map of this class is a JSON value.
\<close>

datatype json = JString string | JNumber int | JObject "(string \<times> json) list"

record HexGrid =
  hexColors :: json
  hexHistory :: "json list"
  hexHistoryIndex :: int

definition jsonCopy :: "json \<Rightarrow> json" where
  \<comment> \<open>\<open>JSON.parse(JSON.stringify(v))\<close> on a value built from strings, integers and
      objects.\<close>
  "jsonCopy v = v"

definition HexGrid_saveState :: "int \<Rightarrow> HexGrid \<Rightarrow> HexGrid" where
  "HexGrid_saveState now g =
     (let h1 = (if hexHistoryIndex g < int (length (hexHistory g)) - 1
                then slice0 (hexHistory g) (hexHistoryIndex g + 1) else hexHistory g);
          colorsCopy = jsonCopy (hexColors g);
          h2 = h1 @ [JObject [(''hexColors'', colorsCopy), (''timestamp'', JNumber now)]];
          i2 = int (length h2) - 1
      in if length h2 > 50
         then g\<lparr>hexHistory := tl h2, hexHistoryIndex := i2 - 1\<rparr>
         else g\<lparr>hexHistory := h2, hexHistoryIndex := i2\<rparr>)"

definition HexGrid_restoreAt :: "int \<Rightarrow> HexGrid \<Rightarrow> HexGrid outcome" where
  \<comment> \<open>\<open>this.historyIndex = i; this.hexColors = JSON.parse(JSON.stringify(this.history[i]))\<close>;
      on the undefined \<open>history[i]\<close>, \<open>JSON.parse\<close> throws a SyntaxError.\<close>
  "HexGrid_restoreAt i g =
     (let g1 = g\<lparr>hexHistoryIndex := i\<rparr> in
      if 0 \<le> i \<and> i < int (length (hexHistory g))
      then Inr (g1\<lparr>hexColors := jsonCopy (hexHistory g ! nat i)\<rparr>)
      else Inl (SyntaxError, g1))"

definition HexGrid_undo :: "HexGrid \<Rightarrow> HexGrid outcome" where
  "HexGrid_undo g =
     (if hexHistoryIndex g > 0 then HexGrid_restoreAt (hexHistoryIndex g - 1) g else Inr g)"

definition HexGrid_redo :: "HexGrid \<Rightarrow> HexGrid outcome" where
  "HexGrid_redo g =
     (if hexHistoryIndex g < int (length (hexHistory g)) - 1
      then HexGrid_restoreAt (hexHistoryIndex g + 1) g else Inr g)"

definition whiteCell :: json where
  "whiteCell = JObject [(''0,0'', JString ''#FFFFFF'')]"

definition redCell :: json where
  "redCell = JObject [(''0,0'', JString ''#FF0000'')]"

definition hexGridTwoEdits :: HexGrid where
  \<comment> \<open>A one-cell grid after two edits: white saved at time 1 and painted red, red saved
      at time 2 and painted blue.\<close>
  "hexGridTwoEdits =
     (HexGrid_saveState 2
        ((HexGrid_saveState 1
            \<lparr>hexColors = whiteCell, hexHistory = [], hexHistoryIndex = - 1\<rparr>)
         \<lparr>hexColors := redCell\<rparr>))
     \<lparr>hexColors := JObject [(''0,0'', JString ''#0000FF'')]\<rparr>"

definition gemGridTwoEdits :: GemGrid where
  \<comment> \<open>The same two edits on a one-cell GemGrid.\<close>
  "gemGridTwoEdits =
     (saveState 2
        ((saveState 1
            \<lparr>cols = 1, rows = 1, gemColors = [(''0,0'', ''#FFFFFF'')], selectedCells = [],
             history = [], historyIndex = - 1\<rparr>)
         \<lparr>gemColors := [(''0,0'', ''#FF0000'')]\<rparr>))
     \<lparr>gemColors := [(''0,0'', ''#0000FF'')]\<rparr>"

definition scenarioGrid :: GemGrid where
  \<comment> \<open>The 2x2 grid of the scenario, freshly constructed, with the cells (0,0) and (1,1)
      selected.\<close>
  "scenarioGrid = (HexGrid_new 2 2)\<lparr>selectedCells := [''0,0'', ''1,1'']\<rparr>"

subsection \<open>Colour mapping and loading\<close>

text \<open>
  The cells of a grid hold colour strings.  \<open>applyColorMapping\<close> writes
  \<open>colorMap[oldColor]\<close> into a cell, and this value is a member of \<open>Object.prototype\<close>
  when \<open>oldColor\<close> is the name of one and no key of the map: the loop runs on cells that
  hold values, and the result says whether they are still colours.
\<close>

definition stringCells :: "cellmap \<Rightarrow> (string \<times> jsvalue) list" where
  "stringCells cells = map (\<lambda>(key, c). (key, Str c)) cells"

fun colorsOf :: "(string \<times> jsvalue) list \<Rightarrow> cellmap option" where
  \<comment> \<open>The cell map as a map of colours, when every cell holds a string.\<close>
  "colorsOf [] = Some []"
| "colorsOf ((key, Str c) # rest) = map_option (\<lambda>cells. (key, c) # cells) (colorsOf rest)"
| "colorsOf ((key, Member name) # rest) = None"

fun mappingLoop ::
  "string list \<Rightarrow> (color \<rightharpoonup> color) \<Rightarrow> (string \<times> jsvalue) list \<Rightarrow> (string \<times> jsvalue) list" where
  \<comment> \<open>The loop \<open>for (const key in this.gemColors)\<close>.  \<open>if (colorMap[oldColor])\<close> tests the
      looked-up value for truthiness: \<open>undefined\<close> and the empty string fail it.\<close>
  "mappingLoop [] colorMap cells = cells"
| "mappingLoop (key # keys) colorMap cells =
     (let oldColor = map_of cells key in
      case getProperty colorMap (toPropertyKey oldColor) of
        None \<Rightarrow> mappingLoop keys colorMap cells
      | Some newColor \<Rightarrow>
          if truthyValue newColor
          then mappingLoop keys colorMap (AList.update key newColor cells)
          else mappingLoop keys colorMap cells)"

datatype mappedGrid = ColorGrid GemGrid | ValueGrid GemGrid "(string \<times> jsvalue) list"

text \<open>
  \<open>ColorGrid g\<close> is the grid \<open>g\<close>; \<open>ValueGrid g cells\<close> is the grid \<open>g\<close> with the cell map
  \<open>cells\<close> in the place of \<open>gemColors\<close>, at least one cell of which is not a string.
\<close>

definition applyColorMapping :: "(color \<rightharpoonup> color) \<Rightarrow> int \<Rightarrow> GemGrid \<Rightarrow> mappedGrid" where
  "applyColorMapping colorMap now g =
     (let g1 = saveState now g;
          cells = mappingLoop (objectKeys (gemColors g1)) colorMap (stringCells (gemColors g1))
      in case colorsOf cells of
           Some colors \<Rightarrow> ColorGrid (g1\<lparr>gemColors := colors\<rparr>)
         | None \<Rightarrow> ValueGrid g1 cells)"

definition recolor :: "(color \<rightharpoonup> color) \<Rightarrow> jsvalue \<Rightarrow> jsvalue" where
  \<comment> \<open>What one round of the loop leaves in a cell that holds \<open>v\<close>.\<close>
  "recolor cm v =
     (case getProperty cm (toPropertyKey (Some v)) of
        None \<Rightarrow> v
      | Some newColor \<Rightarrow> if truthyValue newColor then newColor else v)"

record gridData =
  data_cols :: "int option"
  data_rows :: "int option"
  data_gemColors :: "cellmap option"

definition truthy :: "int option \<Rightarrow> bool" where
  \<comment> \<open>A missing field is \<open>undefined\<close>; a number is truthy unless it is zero.\<close>
  "truthy x = (case x of None \<Rightarrow> False | Some n \<Rightarrow> n \<noteq> 0)"

definition loadFromJSON :: "gridData option \<Rightarrow> int \<Rightarrow> GemGrid \<Rightarrow> GemGrid" where
  \<comment> \<open>gemGrid.js and hexGrid.js.  \<open>None\<close> is a null or undefined \<open>data\<close>; the size field
      only feeds the geometry.\<close>
  "loadFromJSON data now g =
     (case data of
        None \<Rightarrow> g
      | Some d \<Rightarrow>
          (case data_gemColors d of
             None \<Rightarrow> g
           | Some cells \<Rightarrow>
               let g1 = (case (data_cols d, data_rows d) of
                           (Some c, Some r) \<Rightarrow>
                             if truthy (Some c) \<and> truthy (Some r)
                             then calculateDimensions (g\<lparr>cols := c, rows := r\<rparr>) else g
                         | _ \<Rightarrow> g);
                   g2 = g1\<lparr>gemColors := jsonClone cells\<rparr>;
                   g3 = g2\<lparr>selectedCells := []\<rparr>
               in saveState now g3))"

definition HexGrid_loadFromJSON :: "gridData option \<Rightarrow> int \<Rightarrow> GemGrid \<Rightarrow> GemGrid" where
  \<comment> \<open>The bead variant of HexGrid: the state is saved before the load, and the loaded
      map is assigned without a copy.\<close>
  "HexGrid_loadFromJSON data now g =
     (case data of
        None \<Rightarrow> g
      | Some d \<Rightarrow>
          (case data_gemColors d of
             None \<Rightarrow> g
           | Some cells \<Rightarrow>
               let g1 = saveState now g;
                   g2 = (case (data_cols d, data_rows d) of
                           (Some c, Some r) \<Rightarrow>
                             if truthy (Some c) \<and> truthy (Some r)
                             then g1\<lparr>cols := c, rows := r\<rparr> else g1
                         | _ \<Rightarrow> g1);
                   g3 = g2\<lparr>gemColors := cells\<rparr>
               in g3\<lparr>selectedCells := []\<rparr>))"

definition keptHistory :: "GemGrid \<Rightarrow> snapshot list" where
  \<comment> \<open>The entries of the history that a call of \<open>saveState\<close> keeps.\<close>
  "keptHistory g =
     (if length (history g) = 50 \<and> historyIndex g = 49 then tl (history g)
      else take (nat (historyIndex g + 1)) (history g))"

definition paintedGrid :: GemGrid where
  \<comment> \<open>The scenario grid after its first edit, taken at time 5.\<close>
  "paintedGrid = applyColorToSelection ''#FF0000'' 5 scenarioGrid"

definition greenData :: gridData where
  \<comment> \<open>A persisted grid that has a cell map and neither \<open>cols\<close> nor \<open>rows\<close>.\<close>
  "greenData = \<lparr>data_cols = None, data_rows = None,
                 data_gemColors = Some [(''0,0'', ''#00FF00'')]\<rparr>"


definition sizedData :: gridData where
  \<comment> \<open>A persisted grid of three columns and two rows.\<close>
  "sizedData = \<lparr>data_cols = Some 3, data_rows = Some 2,
                 data_gemColors = Some [(''0,0'', ''#00FF00'')]\<rparr>"

definition memberGrid :: GemGrid where
  \<comment> \<open>A one-cell grid whose cell holds the string \<open>toString\<close>.\<close>
  "memberGrid =
     \<lparr>cols = 1, rows = 1, gemColors = [(''0,0'', ''toString'')], selectedCells = [],
      history = [], historyIndex = - 1\<rparr>"
section \<open>ColorPalette: the ten most used colours\<close>

text \<open>
  The histogram \<open>colorCounts\<close> is an object from colours to counts.
  \<open>Array.prototype.sort\<close> is stable; with a comparator that compares a key it is the
  stable sort by that key, descending counts being ascending negated counts.
\<close>

definition intensity :: "color \<Rightarrow> int" where
  "intensity c = (case hexToRgb c of (r, g, b) \<Rightarrow> r + g + b)"

definition sortByCount :: "(color \<times> int) list \<Rightarrow> (color \<times> int) list" where
  "sortByCount colorPairs = sort_key (\<lambda>(color, cnt). - cnt) colorPairs"

definition sortByCountIntensity :: "(color \<times> int \<times> int) list \<Rightarrow> (color \<times> int \<times> int) list" where
  "sortByCountIntensity xs = sort_key (\<lambda>(color, cnt, i). (- cnt, - i)) xs"

function padLoop :: "color list \<Rightarrow> color list" where
  "padLoop topColors =
     (if length topColors < 10 then padLoop (topColors @ [''#FFFFFF'']) else topColors)"
  by pat_completeness auto
termination
  by (relation "measure (\<lambda>t. 10 - length t)") auto

declare padLoop.simps [simp del]

definition extractTopColors :: "(color \<times> int) list \<Rightarrow> color list" where
  "extractTopColors colorCounts =
     (let colorPairs = sortByCount (objectEntries colorCounts);
          colorIntensities =
            sortByCountIntensity (map (\<lambda>(color, cnt). (color, cnt, intensity color)) colorPairs);
          topColors = map fst (take (min 10 (length colorIntensities)) colorIntensities)
      in slice0 (padLoop topColors) 10)"

definition rank :: "color \<times> int \<Rightarrow> int \<times> int" where
  \<comment> \<open>The key of the second sort.\<close>
  "rank x = (- snd x, - intensity (fst x))"

definition spec_rgbSum :: "color \<Rightarrow> int" where
  \<comment> \<open>In the spec's words: the intensity \<open>r + g + b\<close> of a colour.\<close>
  "spec_rgbSum c = fst (hexToRgb c) + fst (snd (hexToRgb c)) + snd (snd (hexToRgb c))"

definition spec_before :: "color \<times> int \<Rightarrow> color \<times> int \<Rightarrow> bool" where
  \<comment> \<open>In the spec's words: \<open>x\<close> may stand before \<open>y\<close> when its count is higher, or the
      counts are equal and its intensity is not lower.\<close>
  "spec_before x y =
     (snd y < snd x \<or> (snd x = snd y \<and> spec_rgbSum (fst y) \<le> spec_rgbSum (fst x)))"

definition spec_tie :: "color \<times> int \<Rightarrow> color \<times> int \<Rightarrow> bool" where
  \<comment> \<open>Two entries that the order of the spec does not separate.\<close>
  "spec_tie x y = (snd x = snd y \<and> spec_rgbSum (fst x) = spec_rgbSum (fst y))"

section \<open>ColorUtils.reduceColors\<close>

text \<open>
  The repository holds the function in three copies.  \<open>ColorUtils2_reduceColors\<close> is
  the one of colorUtils2.js; \<open>reduceColors\<close> is the one the page loads together with
  imageProcessing.js, which records the first image's palette in \<open>window\<close>;
  \<open>Old_reduceColors\<close> is the older one, which reads the palette object
  \<open>window.colorPalette\<close>.  The target \<open>k\<close> is a natural number.  The objects that count
  colours are read with keys that are colours, none of which names a member of
  \<open>Object.prototype\<close>.
\<close>

definition setAdd :: "'a \<Rightarrow> 'a list \<Rightarrow> 'a list" where
  \<comment> \<open>\<open>Set.prototype.add\<close> on a set kept in insertion order.\<close>
  "setAdd x s = (if x \<in> set s then s else s @ [x])"

subsection \<open>colorUtils2.js: the darkest colours as the base palette\<close>

type_synonym baseColor = "color \<times> rgb \<times> int"

definition toBase :: "color \<Rightarrow> baseColor" where
  \<comment> \<open>The object with the fields \<open>hex\<close>, \<open>rgb\<close> and \<open>value\<close>.\<close>
  "toBase hex = (case hexToRgb hex of (r, g, b) \<Rightarrow> (hex, (r, g, b), r + g + b))"

fun closestBaseLoop :: "rgb \<Rightarrow> baseColor list \<Rightarrow> color \<Rightarrow> int option \<Rightarrow> color" where
  "closestBaseLoop colorRgb [] closestColor minDistance = closestColor"
| "closestBaseLoop colorRgb (paletteColor # rest) closestColor minDistance =
     (let distance = sqDistance colorRgb (fst (snd paletteColor)) in
      if closer distance minDistance
      then closestBaseLoop colorRgb rest (fst paletteColor) (Some distance)
      else closestBaseLoop colorRgb rest closestColor minDistance)"

fun mapToBase :: "color list \<Rightarrow> baseColor list \<Rightarrow> nat \<Rightarrow> color list \<Rightarrow> jserror + color list" where
  \<comment> \<open>The loop over \<open>colors\<close>; \<open>basePalette[0].hex\<close> throws on an empty base palette.\<close>
  "mapToBase [] basePalette k uniqueColors = Inr uniqueColors"
| "mapToBase (color # rest) basePalette k uniqueColors =
     (case basePalette of
        [] \<Rightarrow> Inl TypeError
      | first # _ \<Rightarrow>
          let closestColor = closestBaseLoop (hexToRgb color) basePalette (fst first) None;
              uniqueColors' = setAdd closestColor uniqueColors
          in if length uniqueColors' \<ge> k then Inr uniqueColors'
             else mapToBase rest basePalette k uniqueColors')"

fun fillFromBase :: "baseColor list \<Rightarrow> nat \<Rightarrow> color list \<Rightarrow> color list" where
  "fillFromBase [] k resultColors = resultColors"
| "fillFromBase (baseColor # rest) k resultColors =
     (if fst baseColor \<notin> set resultColors
      then let resultColors' = resultColors @ [fst baseColor] in
           if length resultColors' \<ge> k then resultColors' else fillFromBase rest k resultColors'
      else fillFromBase rest k resultColors)"

definition ColorUtils2_reduceColors :: "color list \<Rightarrow> nat \<Rightarrow> jserror + color list" where
  "ColorUtils2_reduceColors colors k =
     (if length colors \<le> k then Inr colors
      else let rgbColors = sort_key (\<lambda>c. snd (snd c)) (map toBase colors);
               basePalette = take k rgbColors
           in case mapToBase colors basePalette k [] of
                Inl e \<Rightarrow> Inl e
              | Inr uniqueColors \<Rightarrow>
                  let resultColors = take k uniqueColors in
                  Inr (if length resultColors < k then fillFromBase basePalette k resultColors
                       else resultColors))"

subsection \<open>The loaded copy: first-image palette, then k-means\<close>

record window =
  firstImagePalette :: "color list option"
  firstImagePaletteCounts :: "(color \<times> int) list option"
  originalImageColors :: "color list option"
  paletteOriginalImageColors :: "(color \<times> int) list option"

definition countOr0 :: "(color \<times> int) list \<Rightarrow> color \<Rightarrow> int" where
  \<comment> \<open>\<open>counts[c] || 0\<close>.\<close>
  "countOr0 counts c = (case map_of counts c of None \<Rightarrow> 0 | Some n \<Rightarrow> n)"

definition colorFrequency :: "color list \<Rightarrow> (color \<times> int) list" where
  "colorFrequency colors =
     fold (\<lambda>c freq. AList.update c (countOr0 freq c + 1) freq) colors []"

definition sortByFrequency :: "(color \<times> int) list \<Rightarrow> color list \<Rightarrow> color list" where
  \<comment> \<open>\<open>xs.sort((a, b) => (counts[b] || 0) - (counts[a] || 0))\<close>.\<close>
  "sortByFrequency counts xs = sort_key (\<lambda>c. - countOr0 counts c) xs"

fun addOriginal :: "color list \<Rightarrow> nat \<Rightarrow> rgb list \<Rightarrow> rgb list" where
  \<comment> \<open>Colours of the palette's original image that are not centroids yet.\<close>
  "addOriginal [] k centroids = centroids"
| "addOriginal (color # rest) k centroids =
     (if length centroids < k
      then if hexToRgb color \<in> set centroids then addOriginal rest k centroids
           else addOriginal rest k (centroids @ [hexToRgb color])
      else centroids)"

fun addPlain :: "rgb list \<Rightarrow> nat \<Rightarrow> rgb list \<Rightarrow> rgb list" where
  "addPlain [] k centroids = centroids"
| "addPlain (p # ps) k centroids =
     (if length centroids \<ge> k then centroids else addPlain ps k (centroids @ [p]))"

definition backfill :: "window \<Rightarrow> rgb list \<Rightarrow> nat \<Rightarrow> rgb list \<Rightarrow> rgb list" where
  \<comment> \<open>The block under \<open>if (centroids.length < k)\<close>: first the colours of the palette's
      original image by frequency, then \<open>window.originalImageColors\<close> or the points.\<close>
  "backfill w rgbColors k centroids =
     (if length centroids < k
      then let originalColors =
                 (case paletteOriginalImageColors w of
                    None \<Rightarrow> []
                  | Some counts \<Rightarrow> sortByFrequency counts (objectKeys counts));
               centroids1 = (if length originalColors > 0
                             then addOriginal originalColors k centroids else centroids)
           in if length centroids1 < k
              then (case originalImageColors w of
                      Some (c # cs) \<Rightarrow> addPlain (map hexToRgb (c # cs)) k centroids1
                    | _ \<Rightarrow> addPlain rgbColors k centroids1)
              else centroids1
      else centroids)"

definition seedCentroids :: "window \<Rightarrow> color list \<Rightarrow> rgb list \<Rightarrow> nat \<Rightarrow> rgb list" where
  \<comment> \<open>The \<open>k\<close> most frequent input colours, then the backfill.\<close>
  "seedCentroids w colors rgbColors k =
     (let freq = colorFrequency colors;
          sortedColors = sortByFrequency freq (objectKeys freq);
          centroids = map hexToRgb (take (min k (length sortedColors)) sortedColors)
      in backfill w rgbColors k centroids)"

fun nearestLoop :: "rgb \<Rightarrow> rgb list \<Rightarrow> nat \<Rightarrow> int option \<Rightarrow> nat \<Rightarrow> nat" where
  \<comment> \<open>The loop over \<open>j\<close>: the centroids not yet seen, the index of the next one, the
      least distance and its index so far.\<close>
  "nearestLoop point [] j minDist newCluster = newCluster"
| "nearestLoop point (centroid # rest) j minDist newCluster =
     (let dist = sqDistance point centroid in
      if closer dist minDist then nearestLoop point rest (j + 1) (Some dist) j
      else nearestLoop point rest (j + 1) minDist newCluster)"

definition nearestCentroid :: "rgb list \<Rightarrow> rgb \<Rightarrow> nat" where
  "nearestCentroid centroids point = nearestLoop point centroids 0 None 0"

fun assignLoop :: "rgb list \<Rightarrow> nat list \<Rightarrow> rgb list \<Rightarrow> nat list \<times> bool" where
  \<comment> \<open>The new cluster of every point, and whether one of them changed.\<close>
  "assignLoop (point # points) (cluster # clusters) centroids =
     (let newCluster = nearestCentroid centroids point;
          (rest, changed) = assignLoop points clusters centroids
      in (newCluster # rest, cluster \<noteq> newCluster \<or> changed))"
| "assignLoop points clusters centroids = ([], False)"

definition addRgb :: "rgb \<Rightarrow> rgb \<Rightarrow> rgb" where
  "addRgb p q = (case p of (r1, g1, b1) \<Rightarrow> case q of (r2, g2, b2) \<Rightarrow> (r1 + r2, g1 + g2, b1 + b2))"

fun sumLoop :: "rgb list \<Rightarrow> nat list \<Rightarrow> rgb list \<Rightarrow> int list \<Rightarrow> jserror + (rgb list \<times> int list)" where
  \<comment> \<open>The sums and counts per cluster; \<open>newCentroids[cluster][0]\<close> throws when the
      cluster is not an index of \<open>newCentroids\<close>.\<close>
  "sumLoop (point # points) (cluster # clusters) newCentroids counts =
     (if cluster < length newCentroids
      then sumLoop points clusters
             (newCentroids[cluster := addRgb (newCentroids ! cluster) point])
             (counts[cluster := counts ! cluster + 1])
      else Inl TypeError)"
| "sumLoop points clusters newCentroids counts = Inr (newCentroids, counts)"

definition roundDiv :: "int \<Rightarrow> int \<Rightarrow> int" where
  \<comment> \<open>\<open>Math.round(s / c)\<close> for a sum \<open>s\<close> of channels and a count \<open>c > 0\<close>: halves go up.
      The quotient is a double, and it is never within rounding of a half unless it is
      one, the count being far below \<open>2 ^ 40\<close>.\<close>
  "roundDiv s c = (2 * s + c) div (2 * c)"

definition meanRgb :: "rgb \<Rightarrow> int \<Rightarrow> rgb" where
  "meanRgb s c = (case s of (r, g, b) \<Rightarrow> (roundDiv r c, roundDiv g c, roundDiv b c))"

fun meanLoop :: "nat list \<Rightarrow> rgb list \<Rightarrow> int list \<Rightarrow> rgb list \<Rightarrow> jserror + rgb list" where
  \<comment> \<open>The loop over \<open>i < k\<close>; writing to the undefined \<open>centroids[i]\<close> throws.\<close>
  "meanLoop [] newCentroids counts centroids = Inr centroids"
| "meanLoop (i # rest) newCentroids counts centroids =
     (if counts ! i > 0
      then if i < length centroids
           then meanLoop rest newCentroids counts
                  (centroids[i := meanRgb (newCentroids ! i) (counts ! i)])
           else Inl TypeError
      else meanLoop rest newCentroids counts centroids)"

definition updateCentroids :: "rgb list \<Rightarrow> nat list \<Rightarrow> nat \<Rightarrow> rgb list \<Rightarrow> jserror + rgb list" where
  "updateCentroids rgbColors clusters k centroids =
     (case sumLoop rgbColors clusters (replicate k (0, 0, 0)) (replicate k 0) of
        Inl e \<Rightarrow> Inl e
      | Inr (newCentroids, counts) \<Rightarrow> meanLoop [0 ..< k] newCentroids counts centroids)"

definition MAX_ITERATIONS :: nat where
  "MAX_ITERATIONS = 50"

function kmeansLoop ::
  "bool \<Rightarrow> nat \<Rightarrow> rgb list \<Rightarrow> nat \<Rightarrow> nat list \<Rightarrow> rgb list \<Rightarrow> jserror + (rgb list \<times> nat)" where
  \<comment> \<open>\<open>while (changed && iterations < MAX_ITERATIONS)\<close>; the result is the centroids
      with the number of rounds that ran.\<close>
  "kmeansLoop changed iterations rgbColors k clusters centroids =
     (if changed \<and> iterations < MAX_ITERATIONS
      then case updateCentroids rgbColors (fst (assignLoop rgbColors clusters centroids)) k
                  centroids of
             Inl e \<Rightarrow> Inl e
           | Inr centroids' \<Rightarrow>
               kmeansLoop (snd (assignLoop rgbColors clusters centroids)) (iterations + 1)
                 rgbColors k (fst (assignLoop rgbColors clusters centroids)) centroids'
      else Inr (centroids, iterations))"
  by pat_completeness auto
termination
  by (relation "measure (\<lambda>(changed, iterations, rest). MAX_ITERATIONS - iterations)") auto

declare kmeansLoop.simps [simp del]

definition kmeans :: "rgb list \<Rightarrow> nat \<Rightarrow> rgb list \<Rightarrow> jserror + (rgb list \<times> nat)" where
  \<comment> \<open>The loop from its initial state: every point in cluster 0, no round run.\<close>
  "kmeans rgbColors k centroids =
     kmeansLoop True 0 rgbColors k (replicate (length rgbColors) 0) centroids"

definition hexOf :: "rgb \<Rightarrow> color" where
  "hexOf centroid = (case centroid of (r, g, b) \<Rightarrow> rgbToHex r g b)"

definition firstPalette :: "window \<Rightarrow> (color list \<times> (color \<times> int) list) option" where
  \<comment> \<open>The guard \<open>Array.isArray(window.firstImagePalette) && window.firstImagePalette.length
      > 0 && window.firstImagePaletteCounts\<close>, with the two values when it holds.\<close>
  "firstPalette w =
     (case (firstImagePalette w, firstImagePaletteCounts w) of
        (Some (p # ps), Some counts) \<Rightarrow> Some (p # ps, counts)
      | _ \<Rightarrow> None)"

definition paletteToUse :: "window \<Rightarrow> color list \<Rightarrow> color list" where
  "paletteToUse w colors =
     (case originalImageColors w of Some (c # cs) \<Rightarrow> c # cs | _ \<Rightarrow> colors)"

definition recordPalette :: "window \<Rightarrow> window" where
  \<comment> \<open>\<open>window.firstImagePalette = [...window.originalImageColors]\<close>, in the branch that
      uses the original colours.\<close>
  "recordPalette w =
     (case originalImageColors w of
        Some (c # cs) \<Rightarrow> w\<lparr>firstImagePalette := Some (c # cs)\<rparr>
      | _ \<Rightarrow> w)"

definition reduceColors :: "window \<Rightarrow> color list \<Rightarrow> nat \<Rightarrow> jserror + (color list \<times> window)" where
  "reduceColors w colors k =
     (if length colors \<le> k then Inr (colors, w)
      else case firstPalette w of
             Some (palette, counts) \<Rightarrow> Inr (take k (sortByFrequency counts palette), w)
           | None \<Rightarrow>
               let rgbColors = map hexToRgb (paletteToUse w colors);
                   w' = recordPalette w;
                   centroids = seedCentroids w' colors rgbColors k
               in case kmeans rgbColors k centroids of
                    Inl e \<Rightarrow> Inl e
                  | Inr (final, rounds) \<Rightarrow> Inr (map hexOf final, w'))"

subsection \<open>The older copy: the existing palette, then k-means\<close>

record colorPalette =
  cp_colors :: "color list option"
  cp_originalImageColors :: "(color \<times> int) list option"

text \<open>
  The fields \<open>colors\<close> and \<open>originalImageColors\<close> of \<open>window.colorPalette\<close>; the argument
  \<open>None\<close> is a page without this object.  An element of a JavaScript array of strings
  is a \<open>color option\<close>, where \<open>None\<close> is \<open>undefined\<close>.  The values of
  \<open>Math.floor(Math.random() * rgbColors.length)\<close> are a parameter: \<open>draw n\<close> is the value
  at the call number \<open>n\<close>.  A call that does not return has the value \<open>None\<close>.
\<close>

definition existingPalette :: "colorPalette option \<Rightarrow> color list option" where
  \<comment> \<open>The colours of the palette without white, when the palette has colours and
      one of them is not white.\<close>
  "existingPalette cp =
     (case cp of
        None \<Rightarrow> None
      | Some p \<Rightarrow>
          (case cp_colors p of
             None \<Rightarrow> None
           | Some cs \<Rightarrow>
               if length cs > 0
               then let paletteColors = filter (\<lambda>color. color \<noteq> ''#FFFFFF'') cs in
                    if length paletteColors > 0 then Some paletteColors else None
               else None))"

fun mapToPalette ::
  "color list \<Rightarrow> color list \<Rightarrow> nat \<Rightarrow> color option list \<Rightarrow> color option list" where
  \<comment> \<open>The loop over \<open>colors\<close> that fills the set \<open>uniqueColors\<close>, with its \<open>break\<close>.  The
      object \<open>colorMapping\<close> is written and never read.\<close>
  "mapToPalette [] paletteColors k uniqueColors = uniqueColors"
| "mapToPalette (color # rest) paletteColors k uniqueColors =
     (let closestColor = findClosestColor color paletteColors;
          uniqueColors' = setAdd closestColor uniqueColors
      in if length uniqueColors' \<ge> k then uniqueColors'
         else mapToPalette rest paletteColors k uniqueColors')"

partial_function (option) paletteFill ::
  "color list \<Rightarrow> nat \<Rightarrow> color option list \<Rightarrow> color option list option" where
  \<comment> \<open>\<open>while (resultColors.length < k && resultColors.length < paletteColors.length)\<close>.\<close>
  "paletteFill paletteColors k resultColors =
     (if length resultColors < k \<and> length resultColors < length paletteColors
      then let nextColor = Some (paletteColors ! length resultColors) in
           if nextColor \<notin> set resultColors
           then paletteFill paletteColors k (resultColors @ [nextColor])
           else paletteFill paletteColors k resultColors
      else Some resultColors)"

partial_function (option) randomFill ::
  "(nat \<Rightarrow> nat) \<Rightarrow> nat \<Rightarrow> rgb list \<Rightarrow> nat \<Rightarrow> nat list \<Rightarrow> rgb list
     \<Rightarrow> (jserror + rgb list) option" where
  \<comment> \<open>\<open>while (centroids.length < k)\<close> with random indices; spreading the undefined
      \<open>rgbColors[idx]\<close> throws.\<close>
  "randomFill draw n rgbColors k usedIndices centroids =
     (if length centroids < k
      then let idx = draw n in
           if idx \<notin> set usedIndices
           then if idx < length rgbColors
                then if length (usedIndices @ [idx]) \<ge> length rgbColors
                     then Some (Inr (centroids @ [rgbColors ! idx]))
                     else randomFill draw (n + 1) rgbColors k (usedIndices @ [idx])
                            (centroids @ [rgbColors ! idx])
                else Some (Inl TypeError)
           else if length usedIndices \<ge> length rgbColors then Some (Inr centroids)
                else randomFill draw (n + 1) rgbColors k usedIndices centroids
      else Some (Inr centroids))"

definition Old_backfill ::
  "colorPalette option \<Rightarrow> (nat \<Rightarrow> nat) \<Rightarrow> rgb list \<Rightarrow> nat \<Rightarrow> rgb list
     \<Rightarrow> (jserror + rgb list) option" where
  \<comment> \<open>The block under \<open>if (centroids.length < k)\<close>: first the colours of the palette's
      original image by frequency, then random points.\<close>
  "Old_backfill cp draw rgbColors k centroids =
     (if length centroids < k
      then let counts = (case cp of
                           None \<Rightarrow> []
                         | Some p \<Rightarrow> (case cp_originalImageColors p of
                                       None \<Rightarrow> [] | Some counts \<Rightarrow> counts));
               originalColors = objectKeys counts;
               centroids1 = (if length originalColors > 0
                             then addOriginal (sortByFrequency counts originalColors) k centroids
                             else centroids)
           in if length centroids1 < k then randomFill draw 0 rgbColors k [] centroids1
              else Some (Inr centroids1)
      else Some (Inr centroids))"

definition Old_reduceColors ::
  "colorPalette option \<Rightarrow> (nat \<Rightarrow> nat) \<Rightarrow> color list \<Rightarrow> nat
     \<Rightarrow> (jserror + color option list) option" where
  "Old_reduceColors cp draw colors k =
     (if length colors \<le> k then Some (Inr (map Some colors))
      else case existingPalette cp of
             Some paletteColors \<Rightarrow>
               let uniqueColors = mapToPalette colors paletteColors k [];
                   resultColors = take k uniqueColors
               in map_option Inr (paletteFill paletteColors k resultColors)
           | None \<Rightarrow>
               let rgbColors = map hexToRgb colors;
                   freq = colorFrequency colors;
                   sortedColors = sortByFrequency freq (objectKeys freq);
                   centroids = map hexToRgb (take (min k (length sortedColors)) sortedColors)
               in case Old_backfill cp draw rgbColors k centroids of
                    None \<Rightarrow> None
                  | Some (Inl e) \<Rightarrow> Some (Inl e)
                  | Some (Inr centroids') \<Rightarrow>
                      (case kmeans rgbColors k centroids' of
                         Inl e \<Rightarrow> Some (Inl e)
                       | Inr (final, rounds) \<Rightarrow> Some (Inr (map (\<lambda>c. Some (hexOf c)) final))))"

definition redPalette :: colorPalette where
  \<comment> \<open>A palette of black and red.\<close>
  "redPalette = \<lparr>cp_colors = Some [''#000000'', ''#FF0000''], cp_originalImageColors = None\<rparr>"

definition threeReds :: "color list" where
  "threeReds = [''#FF0000'', ''#FE0000'', ''#FD0000'']"

definition noWindow :: window where
  \<comment> \<open>The page before any image is loaded.\<close>
  "noWindow = \<lparr>firstImagePalette = None, firstImagePaletteCounts = None,
                originalImageColors = None, paletteOriginalImageColors = None\<rparr>"

definition firstImageWindow :: "color list \<Rightarrow> window" where
  \<comment> \<open>The page after a first image whose cells took the given colours, once each.\<close>
  "firstImageWindow palette =
     \<lparr>firstImagePalette = Some palette,
      firstImagePaletteCounts = Some (map (\<lambda>c. (c, 1)) palette),
      originalImageColors = Some palette,
      paletteOriginalImageColors = Some (map (\<lambda>c. (c, 1)) palette)\<rparr>"

definition threeColors :: "color list" where
  "threeColors = [''#000000'', ''#080808'', ''#FFFFFF'']"

definition clusterPoints :: "rgb list \<Rightarrow> nat list \<Rightarrow> nat \<Rightarrow> rgb list" where
  \<comment> \<open>The points assigned to cluster \<open>i\<close>.\<close>
  "clusterPoints points clusters i = map fst (filter (\<lambda>pc. snd pc = i) (zip points clusters))"

fun sumRgb :: "rgb list \<Rightarrow> rgb" where
  "sumRgb [] = (0, 0, 0)"
| "sumRgb (p # ps) = addRgb p (sumRgb ps)"

definition spec_nearest :: "rgb list \<Rightarrow> rgb \<Rightarrow> nat \<Rightarrow> bool" where
  \<comment> \<open>In the spec's words: \<open>j\<close> is the nearest centroid of the colour by Euclidean RGB
      distance, ties broken by lowest centroid index.\<close>
  "spec_nearest centroids p j =
     (j < length centroids
      \<and> (\<forall>i<length centroids. sqDistance p (centroids ! j) \<le> sqDistance p (centroids ! i))
      \<and> (\<forall>i<j. sqDistance p (centroids ! j) < sqDistance p (centroids ! i)))"

definition spec_mean :: "rgb list \<Rightarrow> nat list \<Rightarrow> rgb list \<Rightarrow> nat \<Rightarrow> rgb" where
  \<comment> \<open>In the spec's words: the componentwise integer-rounded mean of the colours
      assigned to centroid \<open>i\<close>; a centroid with no colour keeps its value.\<close>
  "spec_mean points clusters centroids i =
     (if clusterPoints points clusters i \<noteq> []
      then meanRgb (sumRgb (clusterPoints points clusters i))
             (int (length (clusterPoints points clusters i)))
      else centroids ! i)"

section \<open>Shared facts about the grids\<close>

lemma gemColors_saveState: "gemColors (saveState now g) = gemColors g"
  by (simp add: saveState_def Let_def)

lemma upt_0_2: "[0 ..< 2] = [0, 1]"
  by (simp add: upt_rec)

lemma scenarioGrid_eq:
  "scenarioGrid =
     \<lparr>cols = 2, rows = 2,
      gemColors = [(''0,0'', ''#FFFFFF''), (''1,0'', ''#FFFFFF''), (''0,1'', ''#FFFFFF''),
                   (''1,1'', ''#FFFFFF'')],
      selectedCells = [''0,0'', ''1,1''], history = [], historyIndex = - 1\<rparr>"
  by (simp add: scenarioGrid_def HexGrid_new_def initializeGrid_def cellKey_def
      defaultColor_def upt_0_2)

lemma paintedGrid_eq:
  "paintedGrid =
     \<lparr>cols = 2, rows = 2,
      gemColors = [(''0,0'', ''#FF0000''), (''1,0'', ''#FFFFFF''), (''0,1'', ''#FFFFFF''),
                   (''1,1'', ''#FF0000'')],
      selectedCells = [''0,0'', ''1,1''],
      history = [\<lparr>snap_gemColors = [(''0,0'', ''#FFFFFF''), (''1,0'', ''#FFFFFF''),
                   (''0,1'', ''#FFFFFF''), (''1,1'', ''#FFFFFF'')], timestamp = 5\<rparr>],
      historyIndex = 0\<rparr>"
  by (simp add: paintedGrid_def scenarioGrid_eq applyColorToSelection_def saveState_def
      jsonClone_def Let_def)

lemma history_saveState:
  "historyInv g \<Longrightarrow>
   history (saveState now g) = keptHistory g @ [snapOf now g]
   \<and> historyIndex (saveState now g) = int (length (keptHistory g))"
  apply (auto simp: historyInv_def saveState_def slice0_def Let_def jsonClone_def snapOf_def keptHistory_def)
  apply (cases "history g"; simp)
  done

subsection \<open>Shared facts about objects\<close>

lemma mset_objectEntries: "mset (objectEntries h) = mset h"
  by (simp add: objectEntries_def)

lemma length_objectEntries: "length (objectEntries h) = length h"
  using mset_objectEntries[of h] by (metis size_mset)

lemma objectEntries_plain:
  assumes "list_all (\<lambda>(key, v). \<not> isArrayIndex key) h"
  shows "objectEntries h = h"
proof -
  have "filter (\<lambda>(key, v). isArrayIndex key) h = []"
    using assms by (induction h) auto
  moreover have "filter (\<lambda>(key, v). \<not> isArrayIndex key) h = h"
    using assms by (induction h) auto
  ultimately show ?thesis by (simp add: objectEntries_def)
qed

lemma not_isArrayIndex_hash: "\<not> isArrayIndex (CHR ''#'' # cs)"
  by (simp add: isArrayIndex_def isDigit_def)

lemma objectKeys_plain:
  "list_all (\<lambda>(key, v). \<not> isArrayIndex key) h \<Longrightarrow> objectKeys h = map fst h"
  by (simp add: objectKeys_def objectEntries_plain)

lemma length_objectKeys: "length (objectKeys h) = length h"
  by (simp add: objectKeys_def length_objectEntries)

lemma set_objectKeys: "set (objectKeys h) = fst ` set h"
  using mset_objectEntries[of h] by (metis objectKeys_def set_map set_mset_mset)

lemma distinct_objectKeys: "distinct (objectKeys h) = distinct (map fst h)"
proof -
  have "mset (objectKeys h) = mset (map fst h)"
    unfolding objectKeys_def by (simp only: mset_map mset_objectEntries)
  then show ?thesis by (rule mset_eq_imp_distinct_iff)
qed

section \<open>Facts about the hex codec\<close>

lemma less_16_cases:
  "v < 16 \<Longrightarrow> v = 0 \<or> v = 1 \<or> v = 2 \<or> v = 3 \<or> v = 4 \<or> v = 5 \<or> v = 6 \<or> v = 7 \<or> v = 8
    \<or> v = 9 \<or> v = 10 \<or> v = 11 \<or> v = 12 \<or> v = 13 \<or> v = 14 \<or> v = (15::nat)"
  by arith

lemma hexChar_table:
  "map hexChar [0, 1, 2, 3, 4, 5, 6, 7, 8, 9, 10, 11, 12, 13, 14, 15] = ''0123456789ABCDEF''"
  by (simp add: hexChar_def upperChar_def digitChar_def)


lemma hexChar_cases:
  assumes "v < 16"
  shows "hexChar v \<in> set ''0123456789ABCDEF''"
proof -
  have "v \<in> set [0, 1, 2, 3, 4, 5, 6, 7, 8, 9, 10, 11, 12, 13, 14, 15]"
    using less_16_cases[OF assms] by auto
  then have "hexChar v \<in> set (map hexChar [0, 1, 2, 3, 4, 5, 6, 7, 8, 9, 10, 11, 12, 13, 14, 15])"
    unfolding set_map by (rule imageI)
  then show ?thesis by (simp only: hexChar_table)
qed

lemma hexChar_value:
  assumes "v < 16"
  shows "hexDigitValue (hexChar v) = Some v"
  using less_16_cases[OF assms]
  by (elim disjE) (simp_all add: hexChar_def upperChar_def digitChar_def hexDigitValue_def)

lemma hexChar_plain:
  assumes "v < 16"
  shows "\<not> isWhiteSpace (hexChar v)"
    and "hexChar v \<noteq> CHR ''-''" and "hexChar v \<noteq> CHR ''+''"
    and "hexChar v \<noteq> CHR ''x''" and "hexChar v \<noteq> CHR ''X''"
    and "hexChar v \<noteq> CHR ''#''"
  using hexChar_cases[OF assms] by (auto simp: isWhiteSpace_def)


lemma hexDigits_shift:
  "1 \<le> n \<Longrightarrow> d < 16 \<Longrightarrow> hexDigits (16 * n + d) = hexDigits n @ [digitChar d]"
  by (subst hexDigits.simps) simp

lemma hexDigits_1: "hexDigits 1 = [digitChar 1]"
  by (subst hexDigits.simps) simp

lemma hexDigits_seven:
  assumes "a < 16" "b < 16" "c < 16" "d < 16" "e < 16" "f < 16"
  shows "hexDigits (16 * (16 * (16 * (16 * (16 * (16 * 1 + a) + b) + c) + d) + e) + f)
    = digitChar 1 # map digitChar [a, b, c, d, e, f]"
proof -
  have 1: "hexDigits (16 * 1 + a) = [digitChar 1, digitChar a]"
    using assms by (simp only: hexDigits_shift[of 1 a] hexDigits_1) simp
  have 2: "hexDigits (16 * (16 * 1 + a) + b) = [digitChar 1, digitChar a, digitChar b]"
    using assms by (subst hexDigits_shift) (simp_all only: 1, simp_all)
  have 3: "hexDigits (16 * (16 * (16 * 1 + a) + b) + c)
      = [digitChar 1, digitChar a, digitChar b, digitChar c]"
    using assms by (subst hexDigits_shift) (simp_all only: 2, simp_all)
  have 4: "hexDigits (16 * (16 * (16 * (16 * 1 + a) + b) + c) + d)
      = [digitChar 1, digitChar a, digitChar b, digitChar c, digitChar d]"
    using assms by (subst hexDigits_shift) (simp_all only: 3, simp_all)
  have 5: "hexDigits (16 * (16 * (16 * (16 * (16 * 1 + a) + b) + c) + d) + e)
      = [digitChar 1, digitChar a, digitChar b, digitChar c, digitChar d, digitChar e]"
    using assms by (subst hexDigits_shift) (simp_all only: 4, simp_all)
  show ?thesis
    using assms by (subst hexDigits_shift) (simp_all only: 5, simp_all)
qed

lemma ToInt32_small: "- (2 ^ 31) \<le> n \<Longrightarrow> n < 2 ^ 31 \<Longrightarrow> ToInt32 (Num n) = n"
  by (simp add: ToInt32_def)

lemma shl_byte:
  assumes "0 \<le> x" "x \<le> 255"
  shows "shl x 16 = x * 65536" and "shl x 8 = x * 256"
  using assms by (simp_all add: shl_def ToInt32_small)

lemma shl_1_24: "shl 1 24 = 16777216"
  by (simp add: shl_def ToInt32_def)

lemma rgbToHex_digits:
  assumes "0 \<le> r" "r \<le> 255" "0 \<le> g" "g \<le> 255" "0 \<le> b" "b \<le> 255"
  shows "rgbToHex r g b
    = CHR ''#'' # map hexChar [nat r div 16, nat r mod 16, nat g div 16, nat g mod 16,
                               nat b div 16, nat b mod 16]"
proof -
  let ?a = "nat r div 16" and ?b = "nat r mod 16" and ?c = "nat g div 16"
  let ?d = "nat g mod 16" and ?e = "nat b div 16" and ?f = "nat b mod 16"
  have lt: "?a < 16" "?b < 16" "?c < 16" "?d < 16" "?e < 16" "?f < 16"
    using assms by auto
  have "nat (16777216 + r * 65536 + g * 256 + b)
      = 16 * (16 * (16 * (16 * (16 * (16 * 1 + ?a) + ?b) + ?c) + ?d) + ?e) + ?f"
    using assms by (simp add: nat_add_distrib nat_mult_distrib)
  then have "hexDigits (nat (16777216 + r * 65536 + g * 256 + b))
      = digitChar 1 # map digitChar [?a, ?b, ?c, ?d, ?e, ?f]"
    using hexDigits_seven[OF lt] by simp
  moreover have "\<not> 16777216 + r * 65536 + g * 256 + b < 0"
    using assms by simp
  ultimately show ?thesis
    using assms
    by (simp add: rgbToHex_def shl_byte shl_1_24 toString16_def toUpperCase_def hexChar_def)
qed



lemma hexPrefixValue_hexChars:
  "list_all (\<lambda>v. v < 16) vs \<Longrightarrow>
   hexPrefixValue (map hexChar vs) acc = fold (\<lambda>v a. 16 * a + v) vs acc"
  by (induction vs arbitrary: acc) (simp_all add: hexChar_value)

lemma parseInt16_six:
  assumes "a < 16" "b < 16" "c < 16" "d < 16" "e < 16" "f < 16"
  shows "parseInt16 (map hexChar [a, b, c, d, e, f])
    = Num (int (16 * (16 * (16 * (16 * (16 * a + b) + c) + d) + e) + f))"
proof -
  define n where "n = 16 * (16 * (16 * (16 * (16 * a + b) + c) + d) + e) + f"
  have v: "hexPrefixValue (hexChar a # hexChar b # map hexChar [c, d, e, f]) 0 = n"
    using assms hexPrefixValue_hexChars[of "[a, b, c, d, e, f]" 0] by (simp add: n_def)
  have lt: "n < 16777216"
    using assms unfolding n_def by simp
  have small: "roundToDouble n = n"
    using lt by (simp add: roundToDouble_def)
  have "(16777216::nat) \<le> 2 ^ 1024" by simp
  with lt have big: "\<not> (2::nat) ^ 1024 \<le> n" by linarith
  have "parseInt16 (hexChar a # hexChar b # map hexChar [c, d, e, f]) = Num (int n)"
    unfolding parseInt16_def Let_def
    using hexChar_plain[OF assms(1)] hexChar_plain[OF assms(2)] hexChar_value[OF assms(1)]
    by (simp only: dropWhile.simps list.case if_False if_True v small big option.distinct
         simp_thms)
  then show ?thesis by (simp add: n_def)
qed


lemma hexToRgb_rgbToHex:
  assumes "0 \<le> r" "r \<le> 255" "0 \<le> g" "g \<le> 255" "0 \<le> b" "b \<le> 255"
  shows "hexToRgb (rgbToHex r g b) = (r, g, b)"
proof -
  let ?a = "nat r div 16" and ?b = "nat r mod 16" and ?c = "nat g div 16"
  let ?d = "nat g mod 16" and ?e = "nat b div 16" and ?f = "nat b mod 16"
  have lt: "?a < 16" "?b < 16" "?c < 16" "?d < 16" "?e < 16" "?f < 16"
    using assms by auto
  have n: "int (16 * (16 * (16 * (16 * (16 * ?a + ?b) + ?c) + ?d) + ?e) + ?f)
      = r * 65536 + g * 256 + b"
    using assms by (simp add: nat_add_distrib nat_mult_distrib)
  have p: "parseInt16 (map hexChar [?a, ?b, ?c, ?d, ?e, ?f]) = Num (r * 65536 + g * 256 + b)"
    using parseInt16_six[OF lt] by (simp only: n)
  have t: "ToInt32 (Num (r * 65536 + g * 256 + b)) = r * 65536 + g * 256 + b"
    using assms by (intro ToInt32_small) auto
  have x: "hexToRgb (CHR ''#'' # map hexChar [?a, ?b, ?c, ?d, ?e, ?f])
      = (and255 (sar (r * 65536 + g * 256 + b) 16), and255 (sar (r * 65536 + g * 256 + b) 8),
         and255 (r * 65536 + g * 256 + b))"
    unfolding hexToRgb_def Let_def by (simp only: list.case simp_thms if_True p t)
  have e: "r * 65536 + g * 256 + b = b + 256 * (g + 256 * r)"
    "r * 65536 + g * 256 + b = (b + 256 * g) + 65536 * r"
    by simp_all
  have "0 \<le> b + 256 * g" "b + 256 * g < 65536"
    using assms by auto
  then have c1: "(r * 65536 + g * 256 + b) div 65536 = r"
    by (simp only: e(2) div_mult_self2; simp)
  have c2: "(r * 65536 + g * 256 + b) div 256 = g + 256 * r"
    using assms by (simp only: e(1) div_mult_self2; simp)
  have c3: "(r * 65536 + g * 256 + b) mod 256 = b"
    using assms by (simp only: e(1) mod_mult_self2; simp)
  have c: "and255 (sar (r * 65536 + g * 256 + b) 16) = r"
    "and255 (sar (r * 65536 + g * 256 + b) 8) = g"
    "and255 (r * 65536 + g * 256 + b) = b"
    using assms c1 c2 c3 by (simp_all add: sar_def and255_def)
  show ?thesis
    by (simp only: rgbToHex_digits[OF assms] x c)
qed


lemma upper_digit_hexChar:
  assumes "d \<in> set ''0123456789ABCDEF''"
  shows "\<exists>v < 16. d = hexChar v"
proof -
  from assms have "d \<in> set (map hexChar [0, 1, 2, 3, 4, 5, 6, 7, 8, 9, 10, 11, 12, 13, 14, 15])"
    by (simp only: hexChar_table)
  then obtain v where "v \<in> set [0, 1, 2, 3, 4, 5, 6, 7, 8, 9, 10, 11, 12, 13, 14, 15::nat]"
    "d = hexChar v" unfolding set_map by blast
  moreover from this(1) have "v < 16" by auto
  ultimately show ?thesis by blast
qed

lemma isCanonical_digits:
  assumes "isCanonical c"
  shows "\<exists>a1 a0 b1 b0 c1 c0. a1 < 16 \<and> a0 < 16 \<and> b1 < 16 \<and> b0 < 16 \<and> c1 < 16 \<and> c0 < 16
           \<and> c = CHR ''#'' # map hexChar [a1, a0, b1, b0, c1, c0]"
proof -
  define P where "P = (\<lambda>d. \<exists>v < 16. d = hexChar v)"
  from assms obtain ds where c: "c = CHR ''#'' # ds" and l: "length ds = 6"
    and a: "list_all (\<lambda>d. d \<in> set ''0123456789ABCDEF'') ds"
    by (cases c) (simp_all add: isCanonical_def del: set_simps)
  from a have p: "list_all P ds"
    unfolding P_def list_all_iff using upper_digit_hexChar by blast
  from l obtain d1 d2 d3 d4 d5 d6 where ds: "ds = [d1, d2, d3, d4, d5, d6]"
    by (auto simp: length_Suc_conv eval_nat_numeral)
  from p have "P d1" "P d2" "P d3" "P d4" "P d5" "P d6"
    unfolding ds by simp_all
  then obtain a1 a0 b1 b0 c1 c0 where
    "a1 < 16 \<and> d1 = hexChar a1" "a0 < 16 \<and> d2 = hexChar a0" "b1 < 16 \<and> d3 = hexChar b1"
    "b0 < 16 \<and> d4 = hexChar b0" "c1 < 16 \<and> d5 = hexChar c1" "c0 < 16 \<and> d6 = hexChar c0"
    unfolding P_def by blast
  then have "a1 < 16 \<and> a0 < 16 \<and> b1 < 16 \<and> b0 < 16 \<and> c1 < 16 \<and> c0 < 16
           \<and> c = CHR ''#'' # map hexChar [a1, a0, b1, b0, c1, c0]"
    unfolding c ds by simp
  then show ?thesis by blast
qed

lemma rgbToHex_hexToRgb:
  assumes "isCanonical c"
  shows "(case hexToRgb c of (r, g, b) \<Rightarrow> rgbToHex r g b) = c"
proof -
  from isCanonical_digits[OF assms] obtain a1 a0 b1 b0 c1 c0 where
    lt: "a1 < 16" "a0 < 16" "b1 < 16" "b0 < 16" "c1 < 16" "c0 < 16"
    and c: "c = CHR ''#'' # map hexChar [a1, a0, b1, b0, c1, c0]"
    by blast
  let ?r = "int (16 * a1 + a0)" and ?g = "int (16 * b1 + b0)" and ?b = "int (16 * c1 + c0)"
  have rng: "0 \<le> ?r" "?r \<le> 255" "0 \<le> ?g" "?g \<le> 255" "0 \<le> ?b" "?b \<le> 255"
    using lt by simp_all
  have d: "nat ?r div 16 = a1" "nat ?r mod 16 = a0" "nat ?g div 16 = b1" "nat ?g mod 16 = b0"
    "nat ?b div 16 = c1" "nat ?b mod 16 = c0"
    using lt by (simp_all only: nat_int) simp_all
  have h: "rgbToHex ?r ?g ?b = c"
    using rgbToHex_digits[OF rng] by (simp only: d c)
  have "hexToRgb (rgbToHex ?r ?g ?b) = (?r, ?g, ?b)"
    by (rule hexToRgb_rgbToHex[OF rng])
  then have "hexToRgb c = (?r, ?g, ?b)" by (simp only: h)
  then show ?thesis by (simp only: prod.case h)
qed

lemma hexToRgb_range:
  "\<exists>r g b. hexToRgb s = (r, g, b) \<and> 0 \<le> r \<and> r \<le> 255 \<and> 0 \<le> g \<and> g \<le> 255 \<and> 0 \<le> b \<and> b \<le> 255"
proof -
  have "0 \<le> and255 x \<and> and255 x \<le> 255" for x
    using pos_mod_bound[of 256 x] pos_mod_sign[of 256 x] by (simp add: and255_def)
  then show ?thesis by (simp add: hexToRgb_def Let_def)
qed

section \<open>Facts about reduceColors\<close>

subsection \<open>The base palette of colorUtils2.js\<close>

lemma closestBaseLoop_mem:
  "closestBaseLoop p base c m \<in> insert c (fst ` set base)"
  by (induction base arbitrary: c m) (auto simp: Let_def)

lemma length_setAdd: "length (setAdd x s) \<le> Suc (length s)"
  by (simp add: setAdd_def)

lemma distinct_setAdd: "distinct s \<Longrightarrow> distinct (setAdd x s)"
  by (simp add: setAdd_def)

lemma set_setAdd: "set (setAdd x s) = insert x (set s)"
  by (auto simp: setAdd_def)

lemma mapToBase_ok:
  assumes "base \<noteq> []" and "length u0 < k" and "distinct u0" and "set u0 \<subseteq> fst ` set base"
  shows "\<exists>u. mapToBase cs base k u0 = Inr u \<and> length u \<le> k \<and> distinct u
           \<and> set u \<subseteq> fst ` set base"
  using assms(2-4)
proof (induction cs arbitrary: u0)
  case Nil
  then show ?case by simp
next
  case (Cons c cs)
  from assms(1) obtain b bs where base: "base = b # bs" by (cases base) auto
  let ?cl = "closestBaseLoop (hexToRgb c) base (fst b) None"
  let ?u = "setAdd ?cl u0"
  have m: "?cl \<in> fst ` set base"
    using closestBaseLoop_mem[of "hexToRgb c" base "fst b" None] base by auto
  have d: "distinct ?u" using Cons.prems(2) by (rule distinct_setAdd)
  have s: "set ?u \<subseteq> fst ` set base" using m Cons.prems(3) by (simp add: set_setAdd)
  have l: "length ?u \<le> k" using length_setAdd[of ?cl u0] Cons.prems(1) by simp
  show ?case
  proof (cases "length ?u \<ge> k")
    case True
    with l d s show ?thesis by (simp add: base Let_def)
  next
    case False
    then have "length ?u < k" by simp
    from Cons.IH[OF this d s] False show ?thesis by (simp add: base Let_def)
  qed
qed

lemma fillFromBase_length:
  assumes "distinct res" and "length res < k" and "k \<le> card (set res \<union> fst ` set bs)"
  shows "length (fillFromBase bs k res) = k"
  using assms
proof (induction bs arbitrary: res)
  case Nil
  then show ?case by (simp add: distinct_card)
next
  case (Cons b bs)
  show ?case
  proof (cases "fst b \<in> set res")
    case True
    then have "set res \<union> fst ` set (b # bs) = set res \<union> fst ` set bs" by auto
    with Cons True show ?thesis by simp
  next
    case False
    let ?r = "res @ [fst b]"
    have d: "distinct ?r" using Cons.prems(1) False by simp
    have u: "set ?r \<union> fst ` set bs = set res \<union> fst ` set (b # bs)" by auto
    show ?thesis
    proof (cases "length ?r \<ge> k")
      case True
      with Cons.prems(2) False show ?thesis by (simp add: Let_def)
    next
      case False
      then have "length ?r < k" by simp
      from Cons.IH[OF d this] Cons.prems(3) u \<open>fst b \<notin> set res\<close> False
      show ?thesis by (simp add: Let_def)
    qed
  qed
qed

lemma length_pos_nonempty: "length xs = k \<Longrightarrow> 1 \<le> k \<Longrightarrow> xs \<noteq> []"
  by auto

lemma fst_toBase: "fst (toBase c) = c"
  by (simp add: toBase_def split: prod.splits)

lemma ColorUtils2_reduceColors_length:
  assumes "distinct colors" and "1 \<le> k" and "k < length colors"
  shows "\<exists>res. ColorUtils2_reduceColors colors k = Inr res \<and> length res = k"
proof -
  let ?sorted = "sort_key (\<lambda>c. snd (snd c)) (map toBase colors)"
  let ?base = "take k ?sorted"
  have "map fst (map toBase colors) = colors"
    by (induction colors) (simp_all add: fst_toBase)
  then have "mset (map fst (map toBase colors)) = mset colors" by simp
  then have "mset (map fst ?sorted) = mset colors"
    by (simp only: mset_map mset_sort)
  then have ds: "distinct (map fst ?sorted)"
    using assms(1) by (metis mset_eq_imp_distinct_iff)
  have db: "distinct (map fst ?base)"
    using ds by (simp add: take_map[symmetric] del: take_map)
  have lb: "length ?base = k" using assms(3) by simp
  have cb: "card (fst ` set ?base) = k"
    using db lb by (metis distinct_card length_map set_map)
  have ne: "?base \<noteq> []" by (rule length_pos_nonempty[OF lb assms(2)])
  from mapToBase_ok[OF ne, of "[]" k colors] assms(2)
  obtain u where u: "mapToBase colors ?base k [] = Inr u" "length u \<le> k" "distinct u"
    "set u \<subseteq> fst ` set ?base" by auto
  show ?thesis
  proof (cases "length u < k")
    case True
    have "set u \<union> fst ` set ?base = fst ` set ?base" using u(4) by auto
    with cb have "k \<le> card (set u \<union> fst ` set ?base)" by simp
    from fillFromBase_length[OF u(3) True this] True u(1) assms(3)
    show ?thesis by (simp add: ColorUtils2_reduceColors_def Let_def)
  next
    case False
    with u(1,2) assms(3) show ?thesis by (simp add: ColorUtils2_reduceColors_def Let_def)
  qed
qed

subsection \<open>One round of k-means\<close>

lemma nearestLoop_inv:
  assumes "all = pre @ rest" and "j = length pre" and "c < j"
    and "dm = sqDistance p (all ! c)"
    and "\<forall>i<j. dm \<le> sqDistance p (all ! i)"
    and "\<forall>i<c. dm < sqDistance p (all ! i)"
  shows "nearestLoop p rest j (Some dm) c < length all
    \<and> (\<forall>i<length all. sqDistance p (all ! nearestLoop p rest j (Some dm) c) \<le> sqDistance p (all ! i))
    \<and> (\<forall>i<nearestLoop p rest j (Some dm) c.
          sqDistance p (all ! nearestLoop p rest j (Some dm) c) < sqDistance p (all ! i))"
  using assms
proof (induction rest arbitrary: pre j c dm)
  case Nil
  then show ?case by simp
next
  case (Cons x rest)
  have x: "all ! j = x" using Cons.prems(1,2) by simp
  have a: "all = (pre @ [x]) @ rest" using Cons.prems(1) by simp
  have l: "j + 1 = length (pre @ [x])" using Cons.prems(2) by simp
  show ?case
  proof (cases "sqDistance p x < dm")
    case True
    have 1: "j < j + 1" by simp
    have 2: "sqDistance p x = sqDistance p (all ! j)" using x by simp
    have 3: "\<forall>i<j + 1. sqDistance p x \<le> sqDistance p (all ! i)"
      using Cons.prems(5) True x by (auto simp: less_Suc_eq)
    have 4: "\<forall>i<j. sqDistance p x < sqDistance p (all ! i)"
      using Cons.prems(5) True by fastforce
    from Cons.IH[OF a l 1 2 3 4] True show ?thesis by (simp add: closer_def Let_def)
  next
    case False
    have 1: "c < j + 1" using Cons.prems(3) by simp
    have 3: "\<forall>i<j + 1. dm \<le> sqDistance p (all ! i)"
      using Cons.prems(5) False x by (auto simp: less_Suc_eq)
    from Cons.IH[OF a l 1 Cons.prems(4) 3 Cons.prems(6)] False
    show ?thesis by (simp add: closer_def Let_def)
  qed
qed

lemma nearestCentroid_least:
  assumes "centroids \<noteq> []"
  shows "nearestCentroid centroids p < length centroids
    \<and> (\<forall>i<length centroids.
          sqDistance p (centroids ! nearestCentroid centroids p) \<le> sqDistance p (centroids ! i))
    \<and> (\<forall>i<nearestCentroid centroids p.
          sqDistance p (centroids ! nearestCentroid centroids p) < sqDistance p (centroids ! i))"
proof -
  from assms obtain x rest where c: "centroids = x # rest" by (cases centroids) auto
  have n: "nearestCentroid centroids p = nearestLoop p rest 1 (Some (sqDistance p x)) 0"
    by (simp add: nearestCentroid_def c closer_def Let_def)
  have "nearestLoop p rest 1 (Some (sqDistance p x)) 0 < length centroids
    \<and> (\<forall>i<length centroids. sqDistance p (centroids ! nearestLoop p rest 1 (Some (sqDistance p x)) 0)
          \<le> sqDistance p (centroids ! i))
    \<and> (\<forall>i<nearestLoop p rest 1 (Some (sqDistance p x)) 0.
          sqDistance p (centroids ! nearestLoop p rest 1 (Some (sqDistance p x)) 0)
            < sqDistance p (centroids ! i))"
    by (rule nearestLoop_inv[where pre = "[x]"]) (simp_all add: c)
  then show ?thesis unfolding n .
qed

lemma assignLoop_set:
  "centroids \<noteq> [] \<Longrightarrow> \<forall>c \<in> set (fst (assignLoop points clusters centroids)). c < length centroids"
  by (induction points clusters centroids rule: assignLoop.induct)
     (auto simp: Let_def nearestCentroid_least split: prod.splits)

lemma assignLoop_eq:
  "length clusters = length points \<Longrightarrow>
   assignLoop points clusters centroids
     = (map (nearestCentroid centroids) points, map (nearestCentroid centroids) points \<noteq> clusters)"
  by (induction points clusters centroids rule: assignLoop.induct)
     (auto simp: Let_def split: prod.splits)

lemma addRgb_assoc: "addRgb (addRgb a b) c = addRgb a (addRgb b c)"
  by (simp add: addRgb_def split: prod.splits)

lemma addRgb_zero: "addRgb a (0, 0, 0) = a" "addRgb (0, 0, 0) a = a"
  by (simp_all add: addRgb_def split: prod.splits)

lemma sumLoop_ok:
  assumes "\<forall>c \<in> set clusters. c < length nc" and "length cnt = length nc"
  shows "\<exists>nc' cnt'. sumLoop points clusters nc cnt = Inr (nc', cnt')
     \<and> length nc' = length nc \<and> length cnt' = length nc
     \<and> (\<forall>i<length nc. nc' ! i = addRgb (nc ! i) (sumRgb (clusterPoints points clusters i))
            \<and> cnt' ! i = cnt ! i + int (length (clusterPoints points clusters i)))"
  using assms
proof (induction points clusters nc cnt rule: sumLoop.induct)
  case (1 point points cluster clusters nc cnt)
  let ?nc = "nc[cluster := addRgb (nc ! cluster) point]"
  let ?cnt = "cnt[cluster := cnt ! cluster + 1]"
  have c: "cluster < length nc" using "1.prems"(1) by simp
  have "\<forall>c \<in> set clusters. c < length ?nc" using "1.prems"(1) by simp
  moreover have "length ?cnt = length ?nc" using "1.prems"(2) by simp
  ultimately obtain nc' cnt' where r: "sumLoop points clusters ?nc ?cnt = Inr (nc', cnt')"
    "length nc' = length ?nc" "length cnt' = length ?nc"
    "\<forall>i<length ?nc. nc' ! i = addRgb (?nc ! i) (sumRgb (clusterPoints points clusters i))
            \<and> cnt' ! i = ?cnt ! i + int (length (clusterPoints points clusters i))"
    using "1.IH"[OF c] by blast
  have "nc' ! i = addRgb (nc ! i) (sumRgb (clusterPoints (point # points) (cluster # clusters) i))
      \<and> cnt' ! i = cnt ! i + int (length (clusterPoints (point # points) (cluster # clusters) i))"
    if "i < length nc" for i
    using r(4) that c "1.prems"(2)
    by (cases "i = cluster") (auto simp: clusterPoints_def addRgb_assoc)
  with r(1-3) c show ?case by simp
qed (simp_all add: clusterPoints_def addRgb_zero)

lemma meanLoop_ok:
  assumes "distinct idxs" and "\<forall>i \<in> set idxs. cnt ! i > 0 \<longrightarrow> i < length cs"
  shows "\<exists>cs'. meanLoop idxs nc cnt cs = Inr cs' \<and> length cs' = length cs
     \<and> (\<forall>i<length cs. cs' ! i
           = (if i \<in> set idxs \<and> cnt ! i > 0 then meanRgb (nc ! i) (cnt ! i) else cs ! i))"
  using assms
proof (induction idxs arbitrary: cs)
  case Nil
  then show ?case by simp
next
  case (Cons a idxs)
  show ?case
  proof (cases "cnt ! a > 0")
    case True
    then have a: "a < length cs" using Cons.prems(2) by simp
    let ?cs = "cs[a := meanRgb (nc ! a) (cnt ! a)]"
    have "distinct idxs" using Cons.prems(1) by simp
    moreover have "\<forall>i \<in> set idxs. cnt ! i > 0 \<longrightarrow> i < length ?cs" using Cons.prems(2) by simp
    ultimately obtain cs' where r: "meanLoop idxs nc cnt ?cs = Inr cs'" "length cs' = length ?cs"
      "\<forall>i<length ?cs. cs' ! i
           = (if i \<in> set idxs \<and> cnt ! i > 0 then meanRgb (nc ! i) (cnt ! i) else ?cs ! i)"
      using Cons.IH[of ?cs] by blast
    have "cs' ! i = (if i \<in> set (a # idxs) \<and> cnt ! i > 0 then meanRgb (nc ! i) (cnt ! i) else cs ! i)"
      if "i < length cs" for i
      using r(3) that True a Cons.prems(1) by (cases "i = a") auto
    with r(1,2) True a show ?thesis by simp
  next
    case False
    have "distinct idxs" using Cons.prems(1) by simp
    moreover have "\<forall>i \<in> set idxs. cnt ! i > 0 \<longrightarrow> i < length cs" using Cons.prems(2) by simp
    ultimately obtain cs' where r: "meanLoop idxs nc cnt cs = Inr cs'" "length cs' = length cs"
      "\<forall>i<length cs. cs' ! i
           = (if i \<in> set idxs \<and> cnt ! i > 0 then meanRgb (nc ! i) (cnt ! i) else cs ! i)"
      using Cons.IH[of cs] by blast
    have "cs' ! i = (if i \<in> set (a # idxs) \<and> cnt ! i > 0 then meanRgb (nc ! i) (cnt ! i) else cs ! i)"
      if "i < length cs" for i
      using r(3) that False by (cases "i = a") auto
    with r(1,2) False show ?thesis by simp
  qed
qed

lemma clusterPoints_nonempty: "clusterPoints points clusters i \<noteq> [] \<Longrightarrow> i \<in> set clusters"
  by (auto simp: clusterPoints_def filter_empty_conv dest: set_zip_rightD)

lemma updateCentroids_ok:
  assumes "\<forall>c \<in> set clusters. c < length centroids" and "length centroids \<le> k"
  shows "\<exists>cs'. updateCentroids points clusters k centroids = Inr cs'
     \<and> length cs' = length centroids
     \<and> (\<forall>i<length centroids. cs' ! i
           = (if clusterPoints points clusters i \<noteq> []
              then meanRgb (sumRgb (clusterPoints points clusters i))
                     (int (length (clusterPoints points clusters i)))
              else centroids ! i))"
proof -
  have "\<forall>c \<in> set clusters. c < length (replicate k (0::int, 0::int, 0::int))"
    using assms by auto
  moreover have "length (replicate k (0::int)) = length (replicate k (0::int, 0::int, 0::int))"
    by simp
  ultimately obtain nc cnt where
    s: "sumLoop points clusters (replicate k (0, 0, 0)) (replicate k 0) = Inr (nc, cnt)"
    "\<forall>i<k. nc ! i = sumRgb (clusterPoints points clusters i)
        \<and> cnt ! i = int (length (clusterPoints points clusters i))"
    using sumLoop_ok[of clusters "replicate k (0, 0, 0)" "replicate k 0" points]
    by (auto simp: addRgb_zero)
  have p: "cnt ! i > 0 \<longleftrightarrow> clusterPoints points clusters i \<noteq> []" if "i < k" for i
    using s(2) that by simp
  have "\<forall>i \<in> set [0 ..< k]. cnt ! i > 0 \<longrightarrow> i < length centroids"
    using p clusterPoints_nonempty assms(1) by fastforce
  then obtain cs' where m: "meanLoop [0 ..< k] nc cnt centroids = Inr cs'"
    "length cs' = length centroids"
    "\<forall>i<length centroids. cs' ! i
       = (if i \<in> set [0 ..< k] \<and> cnt ! i > 0 then meanRgb (nc ! i) (cnt ! i) else centroids ! i)"
    using meanLoop_ok[of "[0 ..< k]" cnt centroids nc] by auto
  have "cs' ! i = (if clusterPoints points clusters i \<noteq> []
              then meanRgb (sumRgb (clusterPoints points clusters i))
                     (int (length (clusterPoints points clusters i)))
              else centroids ! i)" if "i < length centroids" for i
  proof -
    have "i < k" using that assms(2) by simp
    with m(3) that p[OF this] s(2) show ?thesis by simp
  qed
  with s(1) m(1,2) show ?thesis by (simp add: updateCentroids_def)
qed

subsection \<open>The loop and its seeds\<close>

lemma kmeansLoop_ok:
  assumes "centroids \<noteq> []" and "length centroids \<le> k"
  shows "\<exists>final n. kmeansLoop changed iterations points k clusters centroids = Inr (final, n)
     \<and> length final = length centroids \<and> iterations \<le> n
     \<and> (n \<le> MAX_ITERATIONS \<or> n = iterations)
     \<and> (changed \<and> iterations < MAX_ITERATIONS \<longrightarrow> iterations < n)"
  using assms
proof (induction changed iterations points k clusters centroids rule: kmeansLoop.induct)
  case (1 changed iterations rgbColors k clusters centroids)
  show ?case
  proof (cases "changed \<and> iterations < MAX_ITERATIONS")
    case False
    then show ?thesis by (subst kmeansLoop.simps) auto
  next
    case True
    let ?cl = "fst (assignLoop rgbColors clusters centroids)"
    have "\<forall>c \<in> set ?cl. c < length centroids"
      using assignLoop_set[OF "1.prems"(1)] by blast
    from updateCentroids_ok[OF this "1.prems"(2), of rgbColors]
    obtain cs' where u: "updateCentroids rgbColors ?cl k centroids = Inr cs'"
      "length cs' = length centroids" by blast
    have ne: "cs' \<noteq> []" using u(2) "1.prems"(1) by auto
    have le: "length cs' \<le> k" using u(2) "1.prems"(2) by simp
    from "1.IH"[OF True u(1) ne le] obtain final n where
      r: "kmeansLoop (snd (assignLoop rgbColors clusters centroids)) (iterations + 1) rgbColors k
            ?cl cs' = Inr (final, n)"
      "length final = length cs'" "iterations + 1 \<le> n"
      "n \<le> MAX_ITERATIONS \<or> n = iterations + 1"
      by blast
    have "n \<le> MAX_ITERATIONS" using r(4) True by auto
    with r u True show ?thesis by (subst kmeansLoop.simps) auto
  qed
qed

lemma kmeans_ok:
  assumes "centroids \<noteq> []" and "length centroids \<le> k"
  shows "\<exists>final n. kmeans points k centroids = Inr (final, n)
     \<and> length final = length centroids \<and> 1 \<le> n \<and> n \<le> 50"
proof -
  from kmeansLoop_ok[OF assms, of True 0 points "replicate (length points) 0"]
  obtain final n where "kmeansLoop True 0 points k (replicate (length points) 0) centroids
      = Inr (final, n)" "length final = length centroids"
    "n \<le> MAX_ITERATIONS \<or> n = 0" "0 < MAX_ITERATIONS \<longrightarrow> 0 < n"
    by auto
  then show ?thesis by (auto simp: kmeans_def MAX_ITERATIONS_def)
qed

lemma kmeansLoop_stops:
  assumes "iterations < MAX_ITERATIONS"
    and "snd (assignLoop points clusters centroids) = False"
    and "updateCentroids points (fst (assignLoop points clusters centroids)) k centroids = Inr cs'"
  shows "kmeansLoop True iterations points k clusters centroids = Inr (cs', iterations + 1)"
  using assms
  by (subst kmeansLoop.simps, simp) (subst kmeansLoop.simps, simp)

lemma length_addOriginal:
  "length centroids \<le> k \<Longrightarrow>
   length centroids \<le> length (addOriginal cs k centroids) \<and> length (addOriginal cs k centroids) \<le> k"
  by (induction cs k centroids rule: addOriginal.induct) (auto simp: le_Suc_eq)

lemma length_addPlain:
  "length centroids \<le> k \<Longrightarrow>
   length centroids \<le> length (addPlain ps k centroids) \<and> length (addPlain ps k centroids) \<le> k"
  by (induction ps k centroids rule: addPlain.induct) (auto simp: le_Suc_eq)

lemma countOr0_update: "countOr0 (AList.update c v freq) c = v"
  by (simp add: countOr0_def update_conv')

lemma keys_colorFrequency_aux:
  "map fst (fold (\<lambda>c freq. AList.update c (countOr0 freq c + 1) freq) colors freq0)
     = fold (\<lambda>c seen. if c \<in> set seen then seen else seen @ [c]) colors (map fst freq0)"
  by (induction colors arbitrary: freq0) (simp_all add: update_keys)

lemma seen_fold_mono:
  "length seen \<le> length (fold (\<lambda>c seen. if c \<in> set seen then seen else seen @ [c]) colors seen)"
proof (induction colors arbitrary: seen)
  case Nil
  then show ?case by simp
next
  case (Cons c colors)
  have "length seen \<le> length (if c \<in> set seen then seen else seen @ [c])" by simp
  also have "\<dots> \<le> length (fold (\<lambda>c seen. if c \<in> set seen then seen else seen @ [c]) colors
      (if c \<in> set seen then seen else seen @ [c]))"
    by (rule Cons.IH)
  finally show ?case by simp
qed

lemma keys_colorFrequency_nonempty:
  assumes "colors \<noteq> []"
  shows "colorFrequency colors \<noteq> []"
proof -
  from assms obtain c cs where c: "colors = c # cs" by (cases colors) auto
  have "1 \<le> length (if c \<in> set [] then [] else [] @ [c])" by simp
  also have "\<dots> \<le> length (fold (\<lambda>c seen. if c \<in> set seen then seen else seen @ [c]) cs
      (if c \<in> set [] then [] else [] @ [c]))"
    by (rule seen_fold_mono)
  finally have "1 \<le> length (map fst (colorFrequency colors))"
    unfolding colorFrequency_def keys_colorFrequency_aux c by simp
  then show ?thesis by auto
qed

lemma keys_colorFrequency_distinct:
  "distinct colors \<Longrightarrow> map fst (colorFrequency colors) = colors"
proof -
  have "fold (\<lambda>c seen. if c \<in> set seen then seen else seen @ [c]) colors seen = seen @ colors"
    if "distinct (seen @ colors)" for seen :: "color list"
    using that by (induction colors arbitrary: seen) auto
  from this[of "[]"] show "distinct colors \<Longrightarrow> map fst (colorFrequency colors) = colors"
    unfolding colorFrequency_def keys_colorFrequency_aux by simp
qed

lemma backfill_bounds:
  assumes "1 \<le> length cs \<and> length cs \<le> k"
  shows "1 \<le> length (backfill w rgbColors k cs) \<and> length (backfill w rgbColors k cs) \<le> k"
proof -
  define P where "P = (\<lambda>cs :: rgb list. 1 \<le> length cs \<and> length cs \<le> k)"
  have p0: "P cs" using assms by (simp add: P_def)
  have ao: "P (addOriginal xs k cs)" if "P cs" for xs cs
    using that length_addOriginal[of cs k xs] by (auto simp: P_def)
  have ap: "P (addPlain ps k cs)" if "P cs" for ps cs
    using that length_addPlain[of cs k ps] by (auto simp: P_def)
  have "P (backfill w rgbColors k cs)"
    unfolding backfill_def Let_def
    by (auto split: option.splits list.splits simp del: addPlain.simps addOriginal.simps
        intro!: ao ap p0)
  then show ?thesis by (simp add: P_def)
qed

lemma seedCentroids_bounds:
  assumes "colors \<noteq> []" and "1 \<le> k"
  shows "seedCentroids w colors rgbColors k \<noteq> [] \<and> length (seedCentroids w colors rgbColors k) \<le> k"
proof -
  let ?freq = "colorFrequency colors"
  let ?sorted = "sortByFrequency ?freq (objectKeys ?freq)"
  let ?c0 = "map hexToRgb (take (min k (length ?sorted)) ?sorted)"
  have "length ?sorted = length ?freq" by (simp add: sortByFrequency_def length_objectKeys)
  moreover have "length ?freq \<ge> 1"
    using keys_colorFrequency_nonempty[OF assms(1)] by (cases ?freq) auto
  ultimately have l0: "1 \<le> length ?c0" "length ?c0 \<le> k" using assms(2) by auto
  have "1 \<le> length (backfill w rgbColors k ?c0) \<and> length (backfill w rgbColors k ?c0) \<le> k"
    by (rule backfill_bounds) (use l0 in auto)
  then show ?thesis by (auto simp: seedCentroids_def Let_def)
qed

subsection \<open>The loop on three colours\<close>

lemma hexToRgb_three:
  "hexToRgb ''#000000'' = (0, 0, 0)" "hexToRgb ''#080808'' = (8, 8, 8)"
  "hexToRgb ''#FFFFFF'' = (255, 255, 255)"
  by (simp_all add: hexToRgb_def parseInt16_def hexDigitValue_def isWhiteSpace_def
      roundToDouble_def ToInt32_def sar_def and255_def Let_def)

lemmas kmeans_eval =
  nearestCentroid_def sqDistance_def closer_def updateCentroids_def meanRgb_def roundDiv_def
  addRgb_def MAX_ITERATIONS_def Let_def upt_0_2 numeral_2_eq_2 numeral_3_eq_3

lemma round1:
  "assignLoop [(0, 0, 0), (8, 8, 8), (255, 255, 255)] [0, 0, 0] [(0, 0, 0), (8, 8, 8)]
     = ([0, 1, 1], True)"
  "updateCentroids [(0, 0, 0), (8, 8, 8), (255, 255, 255)] [0, 1, 1] 2 [(0, 0, 0), (8, 8, 8)]
     = Inr [(0, 0, 0), (132, 132, 132)]"
  by (simp_all add: kmeans_eval)

lemma round2:
  "assignLoop [(0, 0, 0), (8, 8, 8), (255, 255, 255)] [0, 1, 1] [(0, 0, 0), (132, 132, 132)]
     = ([0, 0, 1], True)"
  "updateCentroids [(0, 0, 0), (8, 8, 8), (255, 255, 255)] [0, 0, 1] 2 [(0, 0, 0), (132, 132, 132)]
     = Inr [(4, 4, 4), (255, 255, 255)]"
  by (simp_all add: kmeans_eval)

lemma round3:
  "assignLoop [(0, 0, 0), (8, 8, 8), (255, 255, 255)] [0, 0, 1] [(4, 4, 4), (255, 255, 255)]
     = ([0, 0, 1], False)"
  "updateCentroids [(0, 0, 0), (8, 8, 8), (255, 255, 255)] [0, 0, 1] 2 [(4, 4, 4), (255, 255, 255)]
     = Inr [(4, 4, 4), (255, 255, 255)]"
  by (simp_all add: kmeans_eval)

lemma kmeansLoop_step:
  assumes "iterations < MAX_ITERATIONS" and "assignLoop points clusters centroids = (cl', ch')"
    and "updateCentroids points cl' k centroids = Inr cs'"
  shows "kmeansLoop True iterations points k clusters centroids
    = kmeansLoop ch' (iterations + 1) points k cl' cs'"
  using assms by (subst kmeansLoop.simps) simp

lemma kmeansLoop_done: "kmeansLoop False iterations points k clusters centroids
    = Inr (centroids, iterations)"
  by (subst kmeansLoop.simps) simp

lemma kmeans_scenario:
  "kmeans [(0, 0, 0), (8, 8, 8), (255, 255, 255)] 2 [(0, 0, 0), (8, 8, 8)]
     = Inr ([(4, 4, 4), (255, 255, 255)], 3)"
proof -
  let ?pts = "[(0, 0, 0), (8, 8, 8), (255, 255, 255)] :: rgb list"
  have "kmeans ?pts 2 [(0, 0, 0), (8, 8, 8)] = kmeansLoop True 0 ?pts 2 [0, 0, 0] [(0, 0, 0), (8, 8, 8)]"
    by (simp add: kmeans_def numeral_3_eq_3)
  also have "\<dots> = kmeansLoop True 1 ?pts 2 [0, 1, 1] [(0, 0, 0), (132, 132, 132)]"
    using kmeansLoop_step[OF _ round1, of 0] by (simp add: MAX_ITERATIONS_def numeral_2_eq_2 numeral_3_eq_3)
  also have "\<dots> = kmeansLoop True 2 ?pts 2 [0, 0, 1] [(4, 4, 4), (255, 255, 255)]"
    using kmeansLoop_step[OF _ round2, of 1] by (simp add: MAX_ITERATIONS_def numeral_2_eq_2 numeral_3_eq_3)
  also have "\<dots> = kmeansLoop False 3 ?pts 2 [0, 0, 1] [(4, 4, 4), (255, 255, 255)]"
    using kmeansLoop_step[OF _ round3, of 2] by (simp add: MAX_ITERATIONS_def numeral_2_eq_2 numeral_3_eq_3)
  finally show ?thesis by (simp add: kmeansLoop_done)
qed

lemma palette_round1:
  "assignLoop [(0, 0, 0), (8, 8, 8), (255, 255, 255)] [0, 0, 0] [(0, 0, 0), (255, 255, 255)]
     = ([0, 0, 1], True)"
  "updateCentroids [(0, 0, 0), (8, 8, 8), (255, 255, 255)] [0, 0, 1] 2 [(0, 0, 0), (255, 255, 255)]
     = Inr [(4, 4, 4), (255, 255, 255)]"
  by (simp_all add: kmeans_eval)

lemma kmeans_from_palette:
  "kmeans [(0, 0, 0), (8, 8, 8), (255, 255, 255)] 2 [(0, 0, 0), (255, 255, 255)]
     = Inr ([(4, 4, 4), (255, 255, 255)], 2)"
proof -
  let ?pts = "[(0, 0, 0), (8, 8, 8), (255, 255, 255)] :: rgb list"
  have "kmeans ?pts 2 [(0, 0, 0), (255, 255, 255)]
      = kmeansLoop True 0 ?pts 2 [0, 0, 0] [(0, 0, 0), (255, 255, 255)]"
    by (simp add: kmeans_def numeral_3_eq_3)
  also have "\<dots> = kmeansLoop True 1 ?pts 2 [0, 0, 1] [(4, 4, 4), (255, 255, 255)]"
    using kmeansLoop_step[OF _ palette_round1, of 0] by (simp add: MAX_ITERATIONS_def numeral_2_eq_2 numeral_3_eq_3)
  also have "\<dots> = kmeansLoop False 2 ?pts 2 [0, 0, 1] [(4, 4, 4), (255, 255, 255)]"
    using kmeansLoop_step[OF _ round3, of 1] by (simp add: MAX_ITERATIONS_def numeral_2_eq_2 numeral_3_eq_3)
  finally show ?thesis by (simp add: kmeansLoop_done)
qed

lemma hexOf_samples:
  "hexOf (4, 4, 4) = ''#040404''" "hexOf (255, 255, 255) = ''#FFFFFF''"
  using rgbToHex_digits[of 4 4 4] rgbToHex_digits[of 255 255 255]
  by (simp_all add: hexOf_def hexChar_def upperChar_def digitChar_def)

lemma seeds_three:
  "seedCentroids noWindow threeColors pts 2 = [(0, 0, 0), (8, 8, 8)]"
  by (simp add: seedCentroids_def backfill_def threeColors_def colorFrequency_def countOr0_def
      objectKeys_plain not_isArrayIndex_hash sortByFrequency_def hexToRgb_three Let_def)

lemma backfill_full: "\<not> length cs < k \<Longrightarrow> backfill w pts k cs = cs"
  by (simp add: backfill_def)

lemma seedCentroids_length:
  assumes "distinct colors" and "k \<le> length colors"
  shows "length (seedCentroids w colors rgbColors k) = k"
proof -
  let ?freq = "colorFrequency colors"
  let ?sorted = "sortByFrequency ?freq (objectKeys ?freq)"
  let ?c0 = "map hexToRgb (take (min k (length ?sorted)) ?sorted)"
  have "map fst ?freq = colors"
    by (rule keys_colorFrequency_distinct[OF assms(1)])
  then have "length ?freq = length colors"
    by (metis length_map)
  then have "length ?sorted = length colors"
    by (simp add: sortByFrequency_def length_objectKeys)
  then have l: "length ?c0 = k" using assms(2) by simp
  then have "backfill w rgbColors k ?c0 = ?c0" by (intro backfill_full) simp
  then have "seedCentroids w colors rgbColors k = ?c0"
    by (simp only: seedCentroids_def Let_def)
  then show ?thesis using l by simp
qed

lemma reduceColors_kmeans:
  assumes "1 \<le> k" and "k < length colors" and "firstPalette w = None"
  shows "\<exists>final n. kmeans (map hexToRgb (paletteToUse w colors)) k
              (seedCentroids (recordPalette w) colors (map hexToRgb (paletteToUse w colors)) k)
            = Inr (final, n)
        \<and> 1 \<le> n \<and> n \<le> 50
        \<and> length final
            = length (seedCentroids (recordPalette w) colors (map hexToRgb (paletteToUse w colors)) k)
        \<and> reduceColors w colors k = Inr (map hexOf final, recordPalette w)"
proof -
  let ?pts = "map hexToRgb (paletteToUse w colors)"
  let ?seeds = "seedCentroids (recordPalette w) colors ?pts k"
  have ne: "colors \<noteq> []" using assms(2) by auto
  from seedCentroids_bounds[OF ne assms(1), of "recordPalette w" ?pts]
  have s: "?seeds \<noteq> []" "length ?seeds \<le> k" by auto
  from kmeans_ok[OF s, of ?pts] obtain final n where
    r: "kmeans ?pts k ?seeds = Inr (final, n)" "length final = length ?seeds" "1 \<le> n" "n \<le> 50"
    by blast
  have "reduceColors w colors k = Inr (map hexOf final, recordPalette w)"
    using assms(2,3) r(1) by (simp add: reduceColors_def Let_def)
  with r show ?thesis by blast
qed

lemma reduceColors_palette:
  assumes "k < length colors" and "firstPalette w = Some (palette, counts)"
  shows "reduceColors w colors k = Inr (take k (sortByFrequency counts palette), w)"
  using assms by (simp add: reduceColors_def)

lemma round_law:
  assumes "centroids \<noteq> []" and "length centroids \<le> k" and "length clusters = length points"
  shows "\<exists>cl' cs'. length cl' = length points
      \<and> (\<forall>i<length points. spec_nearest centroids (points ! i) (cl' ! i))
      \<and> length cs' = length centroids
      \<and> (\<forall>i<length centroids. cs' ! i = spec_mean points cl' centroids i)
      \<and> (iterations < 50 \<longrightarrow>
            kmeansLoop True iterations points k clusters centroids
              = kmeansLoop (cl' \<noteq> clusters) (iterations + 1) points k cl' cs')"
proof -
  let ?cl = "map (nearestCentroid centroids) points"
  have a: "assignLoop points clusters centroids = (?cl, ?cl \<noteq> clusters)"
    by (rule assignLoop_eq[OF assms(3)])
  have n: "\<forall>i<length points. spec_nearest centroids (points ! i) (?cl ! i)"
    using nearestCentroid_least[OF assms(1)] by (simp add: spec_nearest_def)
  have "\<forall>c \<in> set ?cl. c < length centroids"
    using nearestCentroid_least[OF assms(1)] by auto
  from updateCentroids_ok[OF this assms(2), of points] obtain cs' where
    u: "updateCentroids points ?cl k centroids = Inr cs'" "length cs' = length centroids"
    "\<forall>i<length centroids. cs' ! i = spec_mean points ?cl centroids i"
    unfolding spec_mean_def by blast
  have "kmeansLoop True iterations points k clusters centroids
      = kmeansLoop (?cl \<noteq> clusters) (iterations + 1) points k ?cl cs'" if "iterations < 50"
    using kmeansLoop_step[OF _ a u(1), of iterations] that by (simp add: MAX_ITERATIONS_def)
  with n u(2,3) show ?thesis by (intro exI[of _ ?cl] exI[of _ cs']) simp
qed

lemma kmeansLoop_cap:
  "50 \<le> iterations \<Longrightarrow>
   kmeansLoop changed iterations points k clusters centroids = Inr (centroids, iterations)"
  by (subst kmeansLoop.simps) (simp add: MAX_ITERATIONS_def)

section \<open>The history invariant\<close>

lemma saveState_inv: "historyInv g \<Longrightarrow> historyInv (saveState now g)"
  by (auto simp: historyInv_def saveState_def slice0_def Let_def)

lemma undo_inv:
  "historyInv g \<Longrightarrow> \<exists>g'. undo g = Inr g' \<and> historyInv g' \<and> history g' = history g"
  by (auto simp: historyInv_def undo_def restoreAt_def Let_def)

lemma redo_inv:
  "historyInv g \<Longrightarrow> \<exists>g'. redo g = Inr g' \<and> historyInv g' \<and> history g' = history g"
  by (auto simp: historyInv_def redo_def restoreAt_def Let_def)

lemma step_inv: "historyInv g \<Longrightarrow> \<exists>g'. step x g = Inr g' \<and> historyInv g'"
  using undo_inv redo_inv saveState_inv by (cases x) fastforce+

lemma run_inv: "historyInv g \<Longrightarrow> \<exists>g'. run xs g = Inr g' \<and> historyInv g'"
proof (induction xs arbitrary: g)
  case Nil
  then show ?case by simp
next
  case (Cons x xs)
  from step_inv[OF Cons.prems] obtain g1 where "step x g = Inr g1" "historyInv g1"
    by blast
  with Cons.IH[of g1] show ?case by simp
qed

lemma saveState_truncates:
  "historyInv g \<Longrightarrow> historyIndex g < int (length (history g)) - 1 \<Longrightarrow>
   history (saveState now g) = take (nat (historyIndex g + 1)) (history g) @ [snapOf now g]
   \<and> historyIndex (saveState now g) = historyIndex g + 1"
  by (auto simp: historyInv_def saveState_def slice0_def Let_def jsonClone_def snapOf_def)

lemma saveState_evicts:
  "length (history g) = 50 \<Longrightarrow> historyIndex g = 49 \<Longrightarrow>
   history (saveState now g) = tl (history g) @ [snapOf now g]
   \<and> historyIndex (saveState now g) = 49
   \<and> history (saveState now g) ! 49 = snapOf now g"
  apply (auto simp: historyInv_def saveState_def slice0_def Let_def jsonClone_def snapOf_def)
   apply (cases "history g"; simp)
  apply (cases "history g"; simp add: nth_append)
  done

text \<open>
  Claim C4.  After every sequence of snapshot, undo and redo operations that starts from
  the empty history (index \<open>-1\<close>), no operation has thrown, \<open>-1 \<le> index < length\<close>
  holds and the stack holds at most 50 snapshots; a snapshot taken while
  \<open>index < length - 1\<close> discards every snapshot after \<open>index\<close>; and a snapshot taken on
  a full stack evicts the oldest entry and decrements the index, which then points at
  the snapshot just taken.
\<close>

theorem history_invariant:
  assumes "history g0 = []" and "historyIndex g0 = - 1"
  shows "\<exists>g. run ops g0 = Inr g
      \<and> - 1 \<le> historyIndex g \<and> historyIndex g < int (length (history g))
      \<and> length (history g) \<le> 50
      \<and> (\<forall>now. historyIndex g < int (length (history g)) - 1 \<longrightarrow>
            history (saveState now g)
              = take (nat (historyIndex g + 1)) (history g) @ [snapOf now g]
            \<and> historyIndex (saveState now g) = historyIndex g + 1)
      \<and> (\<forall>now. length (history g) = 50 \<and> historyIndex g = 49 \<longrightarrow>
            history (saveState now g) = tl (history g) @ [snapOf now g]
            \<and> historyIndex (saveState now g) = 49
            \<and> history (saveState now g) ! 49 = snapOf now g)"
proof -
  have "historyInv g0" using assms by (simp add: historyInv_def)
  then obtain g where g: "run ops g0 = Inr g" "historyInv g" using run_inv by blast
  have t: "\<forall>now. historyIndex g < int (length (history g)) - 1 \<longrightarrow>
            history (saveState now g)
              = take (nat (historyIndex g + 1)) (history g) @ [snapOf now g]
            \<and> historyIndex (saveState now g) = historyIndex g + 1"
    using saveState_truncates[OF g(2)] by blast
  have c: "\<forall>now. length (history g) = 50 \<and> historyIndex g = 49 \<longrightarrow>
            history (saveState now g) = tl (history g) @ [snapOf now g]
            \<and> historyIndex (saveState now g) = 49
            \<and> history (saveState now g) ! 49 = snapOf now g"
    using saveState_evicts[of g] by blast
  from g t c show ?thesis unfolding historyInv_def by blast
qed

theorem history_invariant_witness:
  "history emptyGrid = [] \<and> historyIndex emptyGrid = - 1
   \<and> (\<exists>g. run [Snapshot 1, Snapshot 2, Snapshot 3, Undo, Undo] emptyGrid = Inr g
        \<and> historyIndex g = 0 \<and> length (history g) = 3
        \<and> history (saveState 4 g) = [snapOf 1 emptyGrid, snapOf 4 emptyGrid]
        \<and> historyIndex (saveState 4 g) = 1)
   \<and> (\<exists>g. run (replicate 50 (Snapshot 7)) emptyGrid = Inr g
        \<and> historyIndex g = 49 \<and> length (history g) = 50
        \<and> history (saveState 8 g) = replicate 49 (snapOf 7 emptyGrid) @ [snapOf 8 emptyGrid]
        \<and> historyIndex (saveState 8 g) = 49)"
proof -
  have e: "history emptyGrid = []" "historyIndex emptyGrid = - 1" "gemColors emptyGrid = []"
    by (simp_all add: emptyGrid_def HexGrid_new_def initializeGrid_def)
  have a: "run [Snapshot 1, Snapshot 2, Snapshot 3, Undo, Undo] emptyGrid
      = Inr (emptyGrid\<lparr>history := [snapOf 1 emptyGrid, snapOf 2 emptyGrid, snapOf 3 emptyGrid],
                       historyIndex := 0\<rparr>)"
    by (simp add: e saveState_def undo_def restoreAt_def slice0_def jsonClone_def snapOf_def
        Let_def)
  have b: "run (replicate n (Snapshot 7))
             (emptyGrid\<lparr>history := replicate m (snapOf 7 emptyGrid), historyIndex := int m - 1\<rparr>)
      = Inr (emptyGrid\<lparr>history := replicate (m + n) (snapOf 7 emptyGrid),
                       historyIndex := int (m + n) - 1\<rparr>)"
    if "m + n \<le> 50" for m n
    using that
  proof (induction n arbitrary: m)
    case 0
    then show ?case by simp
  next
    case (Suc n)
    have "saveState 7
            (emptyGrid\<lparr>history := replicate m (snapOf 7 emptyGrid), historyIndex := int m - 1\<rparr>)
        = emptyGrid\<lparr>history := replicate (Suc m) (snapOf 7 emptyGrid),
                    historyIndex := int (Suc m) - 1\<rparr>"
      using Suc.prems
      by (simp add: e saveState_def jsonClone_def Let_def snapOf_def replicate_append_same)
    with Suc.IH[of "Suc m"] Suc.prems show ?case by simp
  qed
  have b0: "run (replicate 50 (Snapshot 7)) emptyGrid
      = Inr (emptyGrid\<lparr>history := replicate 50 (snapOf 7 emptyGrid), historyIndex := 49\<rparr>)"
    using b[of 0 50] by (simp add: emptyGrid_def HexGrid_new_def initializeGrid_def)
  show ?thesis
    using history_invariant[OF e(1) e(2), of "[Snapshot 1, Snapshot 2, Snapshot 3, Undo, Undo]"]
          history_invariant[OF e(1) e(2), of "replicate 50 (Snapshot 7)"]
    apply (simp only: a b0)
    apply (simp add: e snapOf_def)
    done
qed

section \<open>Undo\<close>

lemma undo_at_bottom: "historyIndex g \<le> 0 \<Longrightarrow> undo g = Inr g"
  by (simp add: undo_def)

lemma undo_restores_map:
  "0 < historyIndex g \<Longrightarrow> historyIndex g \<le> int (length (history g)) \<Longrightarrow>
   undo g = Inr (g\<lparr>historyIndex := historyIndex g - 1,
                    gemColors := snap_gemColors (history g ! nat (historyIndex g - 1))\<rparr>)"
  by (simp add: undo_def restoreAt_def jsonClone_def Let_def)

text \<open>
  Claim C2, evaluated on a one-cell grid after two edits (white, then red, then blue;
  the history holds the white and the red snapshot, the index is 1).  \<open>undo\<close> of
  hexGrid.js decrements the index and makes the whole history entry, the object with
  the fields \<open>hexColors\<close> and \<open>timestamp\<close>, the live cell map, not the map stored in
  it.  \<open>undo\<close> of gemGrid.js on the same edits restores the stored map, and the undo
  button of appGem.js throws after it has decremented the index.
\<close>

theorem HexGrid_undo_restores_wrapper:
  "HexGrid_undo hexGridTwoEdits
     = Inr (hexGridTwoEdits
             \<lparr>hexHistoryIndex := 0,
              hexColors := JObject [(''hexColors'', whiteCell), (''timestamp'', JNumber 1)]\<rparr>)
   \<and> JObject [(''hexColors'', whiteCell), (''timestamp'', JNumber 1)] \<noteq> whiteCell
   \<and> undo gemGridTwoEdits
     = Inr (gemGridTwoEdits\<lparr>historyIndex := 0, gemColors := [(''0,0'', ''#FFFFFF'')]\<rparr>)
   \<and> undoButton_click gemGridTwoEdits
     = Inl (SyntaxError, gemGridTwoEdits\<lparr>historyIndex := 0\<rparr>)"
  by (simp add: hexGridTwoEdits_def gemGridTwoEdits_def HexGrid_undo_def HexGrid_restoreAt_def
      HexGrid_saveState_def saveState_def undo_def restoreAt_def undoButton_click_def
      jsonCopy_def jsonClone_def whiteCell_def redCell_def Let_def)

section \<open>The paint, undo, redo scenario\<close>

lemma first_edit_undo_noop:
  assumes "history g = []" and "historyIndex g = - 1" and "selectedCells g \<noteq> []"
  shows "undo (applyColorToSelection color now g) = Inr (applyColorToSelection color now g)"
    and "redo (applyColorToSelection color now g) = Inr (applyColorToSelection color now g)"
  using assms
  by (simp_all add: undo_def redo_def applyColorToSelection_def saveState_def Let_def)

text \<open>
  Claim C3, evaluated.  On the fresh 2x2 grid with (0,0) and (1,1) selected,
  \<open>applyColorToSelection\<close> with \<open>#FF0000\<close> gives the histogram of two red and two white
  cells.  The snapshot taken before the edit is the only history entry and the index is
  0, so the following \<open>undo\<close> changes nothing: the grid keeps its two red cells instead
  of returning to the four white cells.  The \<open>redo\<close> changes nothing either.
\<close>

theorem scenario_undo_keeps_red:
  "getColorCounts scenarioGrid = [(''#FFFFFF'', 4)]
   \<and> getColorCounts (applyColorToSelection ''#FF0000'' now scenarioGrid)
       = [(''#FF0000'', 2), (''#FFFFFF'', 2)]
   \<and> historyIndex (applyColorToSelection ''#FF0000'' now scenarioGrid) = 0
   \<and> undo (applyColorToSelection ''#FF0000'' now scenarioGrid)
       = Inr (applyColorToSelection ''#FF0000'' now scenarioGrid)
   \<and> redo (applyColorToSelection ''#FF0000'' now scenarioGrid)
       = Inr (applyColorToSelection ''#FF0000'' now scenarioGrid)"
  by (simp add: scenarioGrid_eq applyColorToSelection_def saveState_def undo_def redo_def
      getColorCounts_def jsonClone_def Let_def)

section \<open>Applying a colour mapping\<close>

lemma alist_eqI:
  "distinct (map fst xs) \<Longrightarrow> map fst xs = map fst ys
   \<Longrightarrow> (\<And>k. k \<in> set (map fst xs) \<Longrightarrow> map_of xs k = map_of ys k) \<Longrightarrow> xs = ys"
proof (induction xs arbitrary: ys)
  case Nil
  then show ?case by simp
next
  case (Cons x xs)
  from Cons.prems(2) obtain y ys' where ys: "ys = y # ys'"
    by (cases ys) auto
  obtain k v where x: "x = (k, v)" by (cases x)
  obtain k' v' where y: "y = (k', v')" by (cases y)
  from Cons.prems(2) have k: "k' = k" and f: "map fst xs = map fst ys'"
    by (simp_all add: ys x y)
  from Cons.prems(3)[of k] have v: "v' = v"
    by (simp add: ys x y k)
  have "map_of xs j = map_of ys' j" if "j \<in> set (map fst xs)" for j
  proof -
    from that Cons.prems(1) have "j \<noteq> k" by (auto simp: x)
    with Cons.prems(3)[of j] that show ?thesis by (simp add: ys x y k)
  qed
  with Cons.IH[of ys'] Cons.prems(1) f have "xs = ys'" by simp
  then show ?case by (simp add: ys x y k v)
qed

lemma mappingLoop_keys:
  "set ks \<subseteq> fst ` set cells \<Longrightarrow> map fst (mappingLoop ks cm cells) = map fst cells"
proof (induction ks arbitrary: cells)
  case Nil
  then show ?case by simp
next
  case (Cons k ks)
  have u: "map fst (AList.update k v cells) = map fst cells" for v
    using Cons.prems by (simp add: update_keys)
  have "set ks \<subseteq> fst ` set (AList.update k v cells)" for v
    using Cons.prems u[of v] by (metis list.set_map set_subset_Cons subset_trans)
  with Cons show ?case
    by (auto simp: Let_def u split: option.splits)
qed

lemma mappingLoop_lookup:
  "distinct ks \<Longrightarrow> set ks \<subseteq> fst ` set cells \<Longrightarrow>
   map_of (mappingLoop ks cm cells) k =
     (if k \<in> set ks then map_option (recolor cm) (map_of cells k) else map_of cells k)"
proof (induction ks arbitrary: cells)
  case Nil
  then show ?case by simp
next
  case (Cons a ks)
  from Cons.prems(2) obtain v where v: "map_of cells a = Some v"
    by (metis list.set_intros(1) subsetD weak_map_of_SomeI map_of_eq_None_iff not_None_eq)
  have s: "set ks \<subseteq> fst ` set (AList.update a w cells)" for w
    using Cons.prems(2) by (simp add: update_keys[of a w cells] flip: set_map)
  have d: "distinct ks" and n: "a \<notin> set ks"
    using Cons.prems(1) by simp_all
  show ?case
  proof (cases "getProperty cm (toPropertyKey (Some v))")
    case None
    then have "recolor cm v = v" by (simp add: recolor_def)
    with None v Cons.IH[OF d, of cells] Cons.prems(2) n show ?thesis
      by (auto simp: Let_def)
  next
    case (Some w)
    show ?thesis
    proof (cases "truthyValue w")
      case True
      then have "recolor cm v = w" by (simp add: recolor_def Some)
      with Some True v Cons.IH[OF d s[of w]] n show ?thesis
        by (auto simp: Let_def update_conv')
    next
      case False
      then have "recolor cm v = v" by (simp add: recolor_def Some)
      with Some False v Cons.IH[OF d, of cells] Cons.prems(2) n show ?thesis
        by (auto simp: Let_def)
    qed
  qed
qed

lemma mappingLoop_all:
  assumes "distinct (map fst cells)" and "distinct ks" and "set ks = fst ` set cells"
  shows "mappingLoop ks cm cells = map (\<lambda>(key, v). (key, recolor cm v)) cells"
proof (rule alist_eqI)
  let ?r = "map (\<lambda>(key, v). (key, recolor cm v)) cells"
  have s: "set ks \<subseteq> fst ` set cells" using assms(3) by simp
  have f: "map fst ?r = map fst cells" by (induction cells) auto
  show "distinct (map fst (mappingLoop ks cm cells))"
    using assms(1) by (simp add: mappingLoop_keys[OF s])
  show "map fst (mappingLoop ks cm cells) = map fst ?r"
    by (simp only: mappingLoop_keys[OF s] f)
  fix k
  have m: "map_of ?r k = map_option (recolor cm) (map_of cells k)"
    by (induction cells) auto
  assume "k \<in> set (map fst (mappingLoop ks cm cells))"
  then have "k \<in> set ks" using assms(3) by (simp add: mappingLoop_keys[OF s])
  then show "map_of (mappingLoop ks cm cells) k = map_of ?r k"
    using mappingLoop_lookup[OF assms(2) s, of cm k] by (simp only: m if_True)
qed

lemma recolor_color:
  assumes "c \<notin> set objectPrototypeKeys" and "[] \<notin> ran cm"
  shows "recolor cm (Str c) = Str (case cm c of Some v \<Rightarrow> v | None \<Rightarrow> c)"
proof (cases "cm c")
  case None
  with assms(1) show ?thesis by (simp add: recolor_def getProperty_def toPropertyKey_def)
next
  case (Some v)
  with assms(2) have "v \<noteq> []" by (auto simp: ran_def)
  with Some show ?thesis
    by (simp add: recolor_def getProperty_def toPropertyKey_def truthyValue_def)
qed

lemma colorsOf_stringCells: "colorsOf (stringCells cells) = Some cells"
  by (induction cells) (auto simp: stringCells_def)

lemma fst_stringCells: "map fst (stringCells cells) = map fst cells"
  by (induction cells) (auto simp: stringCells_def)

lemma applyColorMapping_colors:
  assumes "distinct (map fst (gemColors g))"
    and "[] \<notin> ran colorMap"
    and "set (map snd (gemColors g)) \<inter> set objectPrototypeKeys = {}"
  shows "applyColorMapping colorMap now g
     = ColorGrid ((saveState now g)
         \<lparr>gemColors := map (\<lambda>(key, c). (key, case colorMap c of Some v \<Rightarrow> v | None \<Rightarrow> c))
                          (gemColors g)\<rparr>)"
proof -
  let ?f = "\<lambda>c. case colorMap c of Some v \<Rightarrow> v | None \<Rightarrow> c"
  have d: "distinct (map fst (stringCells (gemColors g)))"
    using assms(1) by (simp only: fst_stringCells)
  have rc: "map (\<lambda>(key, v). (key, recolor colorMap v)) (stringCells cells)
      = stringCells (map (\<lambda>(key, c). (key, ?f c)) cells)"
    if "set (map snd cells) \<inter> set objectPrototypeKeys = {}" for cells
    using that
  proof (induction cells)
    case Nil
    then show ?case by (simp add: stringCells_def)
  next
    case (Cons x xs)
    obtain key c where x: "x = (key, c)" by (cases x)
    from Cons.prems have "c \<notin> set objectPrototypeKeys" by (auto simp: x)
    from recolor_color[OF this assms(2)] Cons show ?case
      by (auto simp: stringCells_def x)
  qed
  have dk: "distinct (objectKeys (gemColors g))"
    using assms(1) by (simp only: distinct_objectKeys)
  have sk: "set (objectKeys (gemColors g)) = fst ` set (stringCells (gemColors g))"
    using fst_stringCells[of "gemColors g"] by (metis set_objectKeys set_map)
  from rc[OF assms(3)] mappingLoop_all[OF d dk sk, of colorMap]
  have "mappingLoop (objectKeys (gemColors g)) colorMap (stringCells (gemColors g))
      = stringCells (map (\<lambda>(key, c). (key, ?f c)) (gemColors g))"
    by simp
  then show ?thesis
    by (simp add: applyColorMapping_def Let_def gemColors_saveState colorsOf_stringCells)
qed

lemma applyColorMapping_member:
  "applyColorMapping Map.empty 1 memberGrid
     = ValueGrid (saveState 1 memberGrid) [(''0,0'', Member ''toString'')]"
  by (simp add: applyColorMapping_def memberGrid_def saveState_def jsonClone_def stringCells_def
      objectKeys_def objectEntries_def isArrayIndex_def isDigit_def
      getProperty_def toPropertyKey_def truthyValue_def objectPrototypeKeys_def Let_def)

text \<open>
  Claim C5.  For a grid whose cell map has distinct keys and whose cells hold colours,
  none of them the name of a member of \<open>Object.prototype\<close>, and for a colour map whose
  values are non-empty strings, \<open>applyColorMapping\<close> leaves a grid of colours with the
  same cells in the same order: every cell whose colour is a key of the map has the
  mapped colour and every other cell is as it was.  A map that sends every colour
  present in the grid to itself leaves the histogram unchanged.
\<close>

theorem applyColorMapping_partial:
  assumes "distinct (map fst (gemColors g))"
    and "[] \<notin> ran colorMap"
    and "set (map snd (gemColors g)) \<inter> set objectPrototypeKeys = {}"
  shows "\<exists>g'. applyColorMapping colorMap now g = ColorGrid g'
    \<and> map fst (gemColors g') = map fst (gemColors g)
    \<and> (\<forall>key c. map_of (gemColors g) key = Some c \<longrightarrow>
          map_of (gemColors g') key = Some (case colorMap c of Some v \<Rightarrow> v | None \<Rightarrow> c))
    \<and> ((\<forall>c \<in> snd ` set (gemColors g). colorMap c = Some c) \<longrightarrow>
          getColorCounts g' = getColorCounts g)"
proof -
  let ?f = "\<lambda>c. case colorMap c of Some v \<Rightarrow> v | None \<Rightarrow> c"
  let ?cells = "map (\<lambda>(key, c). (key, ?f c)) (gemColors g)"
  let ?g' = "(saveState now g)\<lparr>gemColors := ?cells\<rparr>"
  have a: "applyColorMapping colorMap now g = ColorGrid ?g'"
    by (rule applyColorMapping_colors[OF assms])
  have "map fst (map (\<lambda>(key, c). (key, ?f c)) cells) = map fst cells" for cells
    by (induction cells) auto
  then have k: "map fst (gemColors ?g') = map fst (gemColors g)"
    by simp
  have m: "map_of (map (\<lambda>(key, c). (key, ?f c)) cells) key = map_option ?f (map_of cells key)"
    for key cells
    by (induction cells) (auto split: option.splits)
  have l: "\<forall>key c. map_of (gemColors g) key = Some c \<longrightarrow>
      map_of (gemColors ?g') key = Some (?f c)"
    by (simp add: m)
  have i: "(\<forall>c \<in> snd ` set (gemColors g). colorMap c = Some c) \<longrightarrow>
      getColorCounts ?g' = getColorCounts g"
  proof
    assume h: "\<forall>c \<in> snd ` set (gemColors g). colorMap c = Some c"
    have "map (\<lambda>(key, c). (key, ?f c)) cells = cells"
      if "\<forall>c \<in> snd ` set cells. colorMap c = Some c" for cells
      using that by (induction cells) auto
    from this[OF h] show "getColorCounts ?g' = getColorCounts g"
      by (simp add: getColorCounts_def)
  qed
  from a k l i show ?thesis by blast
qed

theorem applyColorMapping_partial_witness:
  "distinct (map fst (gemColors paintedGrid))
   \<and> [] \<notin> ran [''#FF0000'' \<mapsto> ''#0000FF'']
   \<and> set (map snd (gemColors paintedGrid)) \<inter> set objectPrototypeKeys = {}
   \<and> (\<exists>g'. applyColorMapping [''#FF0000'' \<mapsto> ''#0000FF''] 6 paintedGrid = ColorGrid g'
         \<and> map fst (gemColors g') = [''0,0'', ''1,0'', ''0,1'', ''1,1'']
         \<and> map_of (gemColors g') ''0,0'' = Some ''#0000FF''
         \<and> map_of (gemColors g') ''1,0'' = Some ''#FFFFFF'')
   \<and> map_of (gemColors paintedGrid) ''0,0'' = Some ''#FF0000''
   \<and> map_of (gemColors paintedGrid) ''1,0'' = Some ''#FFFFFF''
   \<and> snd ` set (gemColors paintedGrid) = {''#FF0000'', ''#FFFFFF''}
   \<and> (\<exists>g'. applyColorMapping [''#FF0000'' \<mapsto> ''#FF0000'', ''#FFFFFF'' \<mapsto> ''#FFFFFF''] 6
               paintedGrid = ColorGrid g'
         \<and> getColorCounts g' = [(''#FF0000'', 2), (''#FFFFFF'', 2)])"
proof -
  let ?m1 = "[''#FF0000'' \<mapsto> ''#0000FF'']"
  let ?m2 = "[''#FF0000'' \<mapsto> ''#FF0000'', ''#FFFFFF'' \<mapsto> ''#FFFFFF'']"
  have d: "distinct (map fst (gemColors paintedGrid))"
    by (simp add: paintedGrid_eq)
  have v1: "[] \<notin> ran ?m1"
    by simp
  have v2: "[] \<notin> ran ?m2"
    by (auto simp: ran_def)
  have p: "set (map snd (gemColors paintedGrid)) \<inter> set objectPrototypeKeys = {}"
    by (simp add: paintedGrid_eq objectPrototypeKeys_def)
  note t1 = applyColorMapping_partial[OF d v1 p, of 6]
  note t2 = applyColorMapping_partial[OF d v2 p, of 6]
  have k0: "map fst (gemColors paintedGrid) = [''0,0'', ''1,0'', ''0,1'', ''1,1'']"
    by (simp add: paintedGrid_eq)
  have p00: "map_of (gemColors paintedGrid) ''0,0'' = Some ''#FF0000''"
    and p10: "map_of (gemColors paintedGrid) ''1,0'' = Some ''#FFFFFF''"
    by (simp_all add: paintedGrid_eq)
  have present: "snd ` set (gemColors paintedGrid) = {''#FF0000'', ''#FFFFFF''}"
    by (auto simp: paintedGrid_eq)
  from t1 obtain g1 where g1: "applyColorMapping ?m1 6 paintedGrid = ColorGrid g1"
    "map fst (gemColors g1) = map fst (gemColors paintedGrid)"
    "\<And>key c. map_of (gemColors paintedGrid) key = Some c \<Longrightarrow>
        map_of (gemColors g1) key = Some (case ?m1 c of Some v \<Rightarrow> v | None \<Rightarrow> c)"
    by blast
  have q00: "map_of (gemColors g1) ''0,0'' = Some ''#0000FF''"
    using g1(3)[OF p00] by simp
  have q10: "map_of (gemColors g1) ''1,0'' = Some ''#FFFFFF''"
    using g1(3)[OF p10] by simp
  have e1: "\<exists>g'. applyColorMapping ?m1 6 paintedGrid = ColorGrid g'
         \<and> map fst (gemColors g') = [''0,0'', ''1,0'', ''0,1'', ''1,1'']
         \<and> map_of (gemColors g') ''0,0'' = Some ''#0000FF''
         \<and> map_of (gemColors g') ''1,0'' = Some ''#FFFFFF''"
    by (intro exI[of _ g1] conjI) (rule g1(1) g1(2)[unfolded k0] q00 q10)+
  have idm: "\<forall>c \<in> snd ` set (gemColors paintedGrid). ?m2 c = Some c"
    unfolding present by simp
  from t2 idm obtain g2 where g2: "applyColorMapping ?m2 6 paintedGrid = ColorGrid g2"
    "getColorCounts g2 = getColorCounts paintedGrid"
    by blast
  have "getColorCounts paintedGrid = [(''#FF0000'', 2), (''#FFFFFF'', 2)]"
    by (simp add: paintedGrid_eq getColorCounts_def)
  with g2(2) have c2: "getColorCounts g2 = [(''#FF0000'', 2), (''#FFFFFF'', 2)]"
    by simp
  have e2: "\<exists>g'. applyColorMapping ?m2 6 paintedGrid = ColorGrid g'
         \<and> getColorCounts g' = [(''#FF0000'', 2), (''#FFFFFF'', 2)]"
    by (intro exI[of _ g2] conjI) (rule g2(1) c2)+
  show ?thesis
    by (intro conjI) (rule d v1 p e1 p00 p10 present e2)+
qed

section \<open>Loading a persisted grid\<close>

lemma loadFromJSON_Some:
  "\<exists>c r. loadFromJSON (Some d) now g
     = saveState now (g\<lparr>cols := c, rows := r, gemColors := cells, selectedCells := []\<rparr>)"
  if "data_gemColors d = Some cells"
proof -
  have "loadFromJSON (Some d) now g
      = saveState now (g\<lparr>cols := cols g, rows := rows g, gemColors := cells, selectedCells := []\<rparr>)
    \<or> loadFromJSON (Some d) now g
      = saveState now (g\<lparr>cols := 64, rows := 40, gemColors := cells, selectedCells := []\<rparr>)"
    using that
    by (auto simp: loadFromJSON_def Let_def jsonClone_def calculateDimensions_def
        split: option.splits)
  then show ?thesis by blast
qed

text \<open>
  Claim C6 as stated fails: a grid that has made one edit loads a file that has a cell
  map and neither \<open>cols\<close> nor \<open>rows\<close>.  The load succeeds, the history then holds two
  snapshots, and \<open>undo\<close> brings back the cells from before the load.
\<close>

theorem loadFromJSON_history_not_reset:
  "data_cols greenData = None \<and> data_rows greenData = None
   \<and> gemColors (loadFromJSON (Some greenData) 9 paintedGrid) = [(''0,0'', ''#00FF00'')]
   \<and> length (history (loadFromJSON (Some greenData) 9 paintedGrid)) = 2
   \<and> history (loadFromJSON (Some greenData) 9 paintedGrid)
       \<noteq> [snapOf 9 (loadFromJSON (Some greenData) 9 paintedGrid)]
   \<and> undo (loadFromJSON (Some greenData) 9 paintedGrid)
       = Inr ((loadFromJSON (Some greenData) 9 paintedGrid)
               \<lparr>historyIndex := 0, gemColors := gemColors scenarioGrid\<rparr>)"
  by (simp add: greenData_def paintedGrid_eq scenarioGrid_eq loadFromJSON_def saveState_def
      undo_def restoreAt_def jsonClone_def snapOf_def Let_def)

lemma loadFromJSON_size:
  assumes "data_gemColors d = Some cells"
  shows "cols (loadFromJSON (Some d) now g)
           = (if truthy (data_cols d) \<and> truthy (data_rows d) then 64 else cols g)"
    and "rows (loadFromJSON (Some d) now g)
           = (if truthy (data_cols d) \<and> truthy (data_rows d) then 40 else rows g)"
    and "Some (cols (HexGrid_loadFromJSON (Some d) now g))
           = (if truthy (data_cols d) \<and> truthy (data_rows d) then data_cols d else Some (cols g))"
    and "Some (rows (HexGrid_loadFromJSON (Some d) now g))
           = (if truthy (data_cols d) \<and> truthy (data_rows d) then data_rows d else Some (rows g))"
  using assms
  by (auto simp: loadFromJSON_def HexGrid_loadFromJSON_def saveState_def Let_def truthy_def
      calculateDimensions_def split: option.splits)

text \<open>
  Claim C6, amended.  \<open>loadFromJSON\<close> needs the cell map only: without data or without
  a cell map it returns with the grid and the history unchanged.  \<open>cols\<close> and \<open>rows\<close> are
  optional, and their values are not kept: when both are present and not zero the grid
  takes the fixed size 64 by 40, otherwise its size stays as it was.  With a cell map,
  the live cells become the loaded cells, the selection is emptied, and one snapshot of
  the loaded cells is pushed on the history that \<open>saveState\<close> keeps, with the index on
  it; the earlier snapshots stay.  The bead variant of HexGrid takes the loaded \<open>cols\<close>
  and \<open>rows\<close> when both are present and not zero, and pushes a snapshot of the cells
  from before the load instead.
\<close>

theorem loadFromJSON_pushes_snapshot:
  assumes "historyInv g"
  shows "loadFromJSON None now g = g
    \<and> (data_gemColors d = None \<longrightarrow> loadFromJSON (Some d) now g = g)
    \<and> (\<forall>cells. data_gemColors d = Some cells \<longrightarrow>
          gemColors (loadFromJSON (Some d) now g) = cells
        \<and> selectedCells (loadFromJSON (Some d) now g) = []
        \<and> history (loadFromJSON (Some d) now g)
            = keptHistory g @ [\<lparr>snap_gemColors = cells, timestamp = now\<rparr>]
        \<and> historyIndex (loadFromJSON (Some d) now g) = int (length (keptHistory g))
        \<and> cols (loadFromJSON (Some d) now g)
            = (if truthy (data_cols d) \<and> truthy (data_rows d) then 64 else cols g)
        \<and> rows (loadFromJSON (Some d) now g)
            = (if truthy (data_cols d) \<and> truthy (data_rows d) then 40 else rows g)
        \<and> gemColors (HexGrid_loadFromJSON (Some d) now g) = cells
        \<and> history (HexGrid_loadFromJSON (Some d) now g) = keptHistory g @ [snapOf now g]
        \<and> Some (cols (HexGrid_loadFromJSON (Some d) now g))
            = (if truthy (data_cols d) \<and> truthy (data_rows d) then data_cols d
               else Some (cols g))
        \<and> Some (rows (HexGrid_loadFromJSON (Some d) now g))
            = (if truthy (data_cols d) \<and> truthy (data_rows d) then data_rows d
               else Some (rows g)))"
proof (intro conjI allI impI)
  show "loadFromJSON None now g = g" by (simp add: loadFromJSON_def)
  show "loadFromJSON (Some d) now g = g" if "data_gemColors d = None"
    using that by (simp add: loadFromJSON_def)
next
  fix cells assume c: "data_gemColors d = Some cells"
  from loadFromJSON_Some[OF c] obtain cc rr where
    l: "loadFromJSON (Some d) now g
      = saveState now (g\<lparr>cols := cc, rows := rr, gemColors := cells, selectedCells := []\<rparr>)"
    by blast
  let ?g3 = "g\<lparr>cols := cc, rows := rr, gemColors := cells, selectedCells := []\<rparr>"
  have i: "historyInv ?g3" using assms by (simp add: historyInv_def)
  have k: "keptHistory ?g3 = keptHistory g" by (simp add: keptHistory_def)
  show "gemColors (loadFromJSON (Some d) now g) = cells"
    by (simp add: l gemColors_saveState)
  show "selectedCells (loadFromJSON (Some d) now g) = []"
    by (simp add: l saveState_def Let_def)
  show "history (loadFromJSON (Some d) now g)
      = keptHistory g @ [\<lparr>snap_gemColors = cells, timestamp = now\<rparr>]"
    using history_saveState[OF i, of now] by (simp add: l k snapOf_def)
  show "historyIndex (loadFromJSON (Some d) now g) = int (length (keptHistory g))"
    using history_saveState[OF i, of now] by (simp add: l k)
  show "cols (loadFromJSON (Some d) now g)
      = (if truthy (data_cols d) \<and> truthy (data_rows d) then 64 else cols g)"
    by (rule loadFromJSON_size(1)[OF c])
  show "rows (loadFromJSON (Some d) now g)
      = (if truthy (data_cols d) \<and> truthy (data_rows d) then 40 else rows g)"
    by (rule loadFromJSON_size(2)[OF c])
  show "gemColors (HexGrid_loadFromJSON (Some d) now g) = cells"
    using c by (simp add: HexGrid_loadFromJSON_def Let_def split: option.splits)
  show "history (HexGrid_loadFromJSON (Some d) now g) = keptHistory g @ [snapOf now g]"
    using c history_saveState[OF assms, of now]
    by (simp add: HexGrid_loadFromJSON_def Let_def split: option.splits)
  show "Some (cols (HexGrid_loadFromJSON (Some d) now g))
      = (if truthy (data_cols d) \<and> truthy (data_rows d) then data_cols d else Some (cols g))"
    by (rule loadFromJSON_size(3)[OF c])
  show "Some (rows (HexGrid_loadFromJSON (Some d) now g))
      = (if truthy (data_cols d) \<and> truthy (data_rows d) then data_rows d else Some (rows g))"
    by (rule loadFromJSON_size(4)[OF c])
qed

theorem loadFromJSON_pushes_snapshot_witness:
  "historyInv paintedGrid
   \<and> data_gemColors greenData = Some [(''0,0'', ''#00FF00'')]
   \<and> data_gemColors (greenData\<lparr>data_gemColors := None\<rparr>) = None
   \<and> loadFromJSON (Some (greenData\<lparr>data_gemColors := None\<rparr>)) 9 paintedGrid = paintedGrid
   \<and> gemColors (loadFromJSON (Some greenData) 9 paintedGrid) = [(''0,0'', ''#00FF00'')]
   \<and> history (loadFromJSON (Some greenData) 9 paintedGrid)
       = history paintedGrid @ [\<lparr>snap_gemColors = [(''0,0'', ''#00FF00'')], timestamp = 9\<rparr>]
   \<and> history (HexGrid_loadFromJSON (Some greenData) 9 paintedGrid)
       = history paintedGrid @ [snapOf 9 paintedGrid]
   \<and> cols (loadFromJSON (Some greenData) 9 paintedGrid) = 2
   \<and> rows (loadFromJSON (Some greenData) 9 paintedGrid) = 2
   \<and> data_gemColors sizedData = Some [(''0,0'', ''#00FF00'')]
   \<and> data_cols sizedData = Some 3 \<and> data_rows sizedData = Some 2
   \<and> cols (loadFromJSON (Some sizedData) 9 paintedGrid) = 64
   \<and> rows (loadFromJSON (Some sizedData) 9 paintedGrid) = 40
   \<and> cols (HexGrid_loadFromJSON (Some sizedData) 9 paintedGrid) = 3
   \<and> rows (HexGrid_loadFromJSON (Some sizedData) 9 paintedGrid) = 2"
proof -
  have i: "historyInv paintedGrid" by (simp add: paintedGrid_eq historyInv_def)
  have k: "keptHistory paintedGrid = history paintedGrid"
    by (simp add: paintedGrid_eq keptHistory_def)
  have c: "data_gemColors greenData = Some [(''0,0'', ''#00FF00'')]"
    and n: "data_gemColors (greenData\<lparr>data_gemColors := None\<rparr>) = None"
    and tg: "\<not> truthy (data_cols greenData)"
    by (simp_all add: greenData_def truthy_def)
  have sc: "data_gemColors sizedData = Some [(''0,0'', ''#00FF00'')]"
    and s3: "data_cols sizedData = Some 3" and s2: "data_rows sizedData = Some 2"
    and ts: "truthy (data_cols sizedData) \<and> truthy (data_rows sizedData)"
    by (simp_all add: sizedData_def truthy_def)
  have pc: "cols paintedGrid = 2" and pr: "rows paintedGrid = 2"
    by (simp_all add: paintedGrid_eq)
  note t1 = loadFromJSON_pushes_snapshot[OF i, of 9 greenData]
  note t2 = loadFromJSON_pushes_snapshot[OF i, of 9 "greenData\<lparr>data_gemColors := None\<rparr>"]
  note t3 = loadFromJSON_pushes_snapshot[OF i, of 9 sizedData]
  from t2 n have a: "loadFromJSON (Some (greenData\<lparr>data_gemColors := None\<rparr>)) 9 paintedGrid
      = paintedGrid" by blast
  from t1 c have b: "gemColors (loadFromJSON (Some greenData) 9 paintedGrid) = [(''0,0'', ''#00FF00'')]"
    and h: "history (loadFromJSON (Some greenData) 9 paintedGrid)
       = keptHistory paintedGrid @ [\<lparr>snap_gemColors = [(''0,0'', ''#00FF00'')], timestamp = 9\<rparr>]"
    and hh: "history (HexGrid_loadFromJSON (Some greenData) 9 paintedGrid)
       = keptHistory paintedGrid @ [snapOf 9 paintedGrid]"
    and gc: "cols (loadFromJSON (Some greenData) 9 paintedGrid)
       = (if truthy (data_cols greenData) \<and> truthy (data_rows greenData) then 64
          else cols paintedGrid)"
    and gr: "rows (loadFromJSON (Some greenData) 9 paintedGrid)
       = (if truthy (data_cols greenData) \<and> truthy (data_rows greenData) then 40
          else rows paintedGrid)"
    by blast+
  from gc gr tg pc pr have g2: "cols (loadFromJSON (Some greenData) 9 paintedGrid) = 2"
    "rows (loadFromJSON (Some greenData) 9 paintedGrid) = 2"
    by simp_all
  from t3 sc have zc: "cols (loadFromJSON (Some sizedData) 9 paintedGrid)
       = (if truthy (data_cols sizedData) \<and> truthy (data_rows sizedData) then 64
          else cols paintedGrid)"
    and zr: "rows (loadFromJSON (Some sizedData) 9 paintedGrid)
       = (if truthy (data_cols sizedData) \<and> truthy (data_rows sizedData) then 40
          else rows paintedGrid)"
    and hc: "Some (cols (HexGrid_loadFromJSON (Some sizedData) 9 paintedGrid))
       = (if truthy (data_cols sizedData) \<and> truthy (data_rows sizedData) then data_cols sizedData
          else Some (cols paintedGrid))"
    and hr: "Some (rows (HexGrid_loadFromJSON (Some sizedData) 9 paintedGrid))
       = (if truthy (data_cols sizedData) \<and> truthy (data_rows sizedData) then data_rows sizedData
          else Some (rows paintedGrid))"
    by blast+
  from zc zr hc hr ts s3 s2 have z: "cols (loadFromJSON (Some sizedData) 9 paintedGrid) = 64"
    "rows (loadFromJSON (Some sizedData) 9 paintedGrid) = 40"
    "cols (HexGrid_loadFromJSON (Some sizedData) 9 paintedGrid) = 3"
    "rows (HexGrid_loadFromJSON (Some sizedData) 9 paintedGrid) = 2"
    by simp_all
  show ?thesis
    by (intro conjI) (rule i c n a b h[unfolded k] hh[unfolded k] g2 sc s3 s2 z)+
qed

section \<open>Decoding a colour string\<close>

text \<open>
  Claim C9 as stated fails: \<open>zzz\<close> is not a valid hex colour code, and \<open>hexToRgb\<close>
  returns black for it (\<open>parseInt\<close> gives \<open>NaN\<close>, which the shifts read as 0).
\<close>

theorem hexToRgb_invalid_returns:
  "\<not> isValidHex ''zzz'' \<and> hexToRgb ''zzz'' = (0, 0, 0)"
  by (simp add: isValidHex_def hexToRgb_def parseInt16_def hexDigitValue_def isWhiteSpace_def
      ToInt32_def sar_def and255_def)

lemma hexToRgb_malformed:
  "hexToRgb ''zzz'' = (0, 0, 0)" "hexToRgb ''-1'' = (255, 255, 255)"
  "hexToRgb '' ff'' = (0, 0, 255)" "hexToRgb ''#12'' = (0, 0, 18)"
  by (simp_all add: hexToRgb_def parseInt16_def hexDigitValue_def isWhiteSpace_def
      roundToDouble_def ToInt32_def sar_def and255_def Let_def)

lemma isValidHex_malformed:
  "\<not> isValidHex ''zzz''" "\<not> isValidHex ''-1''" "\<not> isValidHex '' ff''" "\<not> isValidHex ''#12''"
  by (simp_all add: isValidHex_def hexDigitValue_def)

text \<open>
  Claim C9, amended.  \<open>hexToRgb\<close> checks nothing and never fails: every string gives
  three channels between 0 and 255.  Of the strings that are no valid colour code,
  \<open>zzz\<close> gives \<open>(0, 0, 0)\<close>, \<open>-1\<close> gives \<open>(255, 255, 255)\<close>, \<open>ff\<close> after a space gives
  \<open>(0, 0, 255)\<close> and \<open>#12\<close> gives \<open>(0, 0, 18)\<close>.  On canonical colours \<open>hexToRgb\<close> is the
  inverse of \<open>rgbToHex\<close>, in both directions.
\<close>

theorem hexToRgb_total_and_inverse:
  "(\<exists>r g b. hexToRgb s = (r, g, b)
       \<and> 0 \<le> r \<and> r \<le> 255 \<and> 0 \<le> g \<and> g \<le> 255 \<and> 0 \<le> b \<and> b \<le> 255)
   \<and> \<not> isValidHex ''zzz'' \<and> hexToRgb ''zzz'' = (0, 0, 0)
   \<and> \<not> isValidHex ''-1'' \<and> hexToRgb ''-1'' = (255, 255, 255)
   \<and> \<not> isValidHex '' ff'' \<and> hexToRgb '' ff'' = (0, 0, 255)
   \<and> \<not> isValidHex ''#12'' \<and> hexToRgb ''#12'' = (0, 0, 18)
   \<and> (0 \<le> r \<and> r \<le> 255 \<and> 0 \<le> g \<and> g \<le> 255 \<and> 0 \<le> b \<and> b \<le> 255 \<longrightarrow>
        hexToRgb (rgbToHex r g b) = (r, g, b))
   \<and> (isCanonical c \<longrightarrow> (case hexToRgb c of (r, g, b) \<Rightarrow> rgbToHex r g b) = c)"
  using hexToRgb_range[of s] hexToRgb_rgbToHex[of r g b] rgbToHex_hexToRgb[of c]
    hexToRgb_malformed isValidHex_malformed
  by blast

theorem hexToRgb_total_and_inverse_witness:
  "hexToRgb ''zzz'' = (0, 0, 0)
   \<and> rgbToHex 255 128 1 = ''#FF8001'' \<and> hexToRgb (rgbToHex 255 128 1) = (255, 128, 1)
   \<and> isCanonical ''#FF8001''
   \<and> (case hexToRgb ''#FF8001'' of (r, g, b) \<Rightarrow> rgbToHex r g b) = ''#FF8001''"
proof -
  note t = hexToRgb_total_and_inverse[of "''zzz''" 255 128 1 "''#FF8001''"]
  from t have z: "hexToRgb ''zzz'' = (0, 0, 0)" by blast
  have c: "isCanonical ''#FF8001''" by (simp add: isCanonical_def)
  have h: "rgbToHex 255 128 1 = ''#FF8001''"
    using rgbToHex_digits[of 255 128 1] by (simp add: hexChar_def upperChar_def digitChar_def)
  have "(0::int) \<le> 255 \<and> (255::int) \<le> 255 \<and> (0::int) \<le> 128 \<and> (128::int) \<le> 255
      \<and> (0::int) \<le> 1 \<and> (1::int) \<le> 255" by simp
  with t have i: "hexToRgb (rgbToHex 255 128 1) = (255, 128, 1)" by blast
  from t c have j: "(case hexToRgb ''#FF8001'' of (r, g, b) \<Rightarrow> rgbToHex r g b) = ''#FF8001''"
    by blast
  show ?thesis
    by (intro conjI) (rule z h i c j)+
qed
section \<open>The palette extracted from a histogram\<close>

lemma padLoop_eq: "padLoop xs = xs @ replicate (10 - length xs) ''#FFFFFF''"
proof (induction xs rule: padLoop.induct)
  case (1 topColors)
  show ?case
  proof (cases "length topColors < 10")
    case True
    then have "10 - length topColors = Suc (10 - length (topColors @ [''#FFFFFF'']))" by simp
    with 1 True show ?thesis
      by (subst padLoop.simps) (simp add: replicate_app_Cons_same)
  next
    case False
    then show ?thesis by (subst padLoop.simps) simp
  qed
qed


lemma insort_key_map:
  "insort_key f (g x) (map g ys) = map g (insort_key (\<lambda>y. f (g y)) x ys)"
  by (induction ys) simp_all

lemma sort_key_map: "sort_key f (map g xs) = map g (sort_key (\<lambda>y. f (g y)) xs)"
  by (induction xs) (simp_all add: insort_key_map)

lemma spec_rgbSum_intensity: "spec_rgbSum c = intensity c"
  by (simp add: spec_rgbSum_def intensity_def split: prod.splits)

lemma rank_le_iff: "rank x \<le> rank y \<longleftrightarrow> spec_before x y"
  by (auto simp: rank_def spec_before_def spec_rgbSum_intensity less_eq_prod_def)

lemma rank_eq_iff: "rank x = rank e \<longleftrightarrow> spec_tie e x"
  by (auto simp: rank_def spec_tie_def spec_rgbSum_intensity)

lemma sorted_rank_spec_before: "sorted (map rank es) \<Longrightarrow> sorted_wrt spec_before es"
  by (simp add: sorted_map sorted_wrt_mono_rel[of es "\<lambda>x y. rank x \<le> rank y"] rank_le_iff)

lemma two_sorts_stable:
  "filter (\<lambda>e. rank e = k) (sort_key rank (sort_key (\<lambda>(color, cnt). - cnt) h))
     = filter (\<lambda>e. rank e = k) h"
proof -
  let ?K1 = "\<lambda>(color, cnt). - (cnt::int)"
  have r: "(\<lambda>e. rank e = k) = (\<lambda>e. ?K1 e = fst k \<and> rank e = k)"
    by (auto simp: rank_def fun_eq_iff)
  have "filter (\<lambda>e. rank e = k) (sort_key ?K1 h)
      = filter (\<lambda>e. rank e = k) (filter (\<lambda>e. ?K1 e = fst k) (sort_key ?K1 h))"
    by (subst r) (simp add: conj_commute)
  also have "\<dots> = filter (\<lambda>e. rank e = k) (filter (\<lambda>e. ?K1 e = fst k) h)"
    by (simp only: sort_key_stable)
  also have "\<dots> = filter (\<lambda>e. rank e = k) h"
    by (subst (2) r) (simp add: conj_commute)
  finally show ?thesis by (simp only: sort_key_stable)
qed

lemma extractTopColors_eq:
  "extractTopColors h
     = take 10 (map fst (sort_key rank (sortByCount (objectEntries h))))
       @ replicate (10 - length h) ''#FFFFFF''"
proof -
  have k: "(\<lambda>y. (case (case y of (color, cnt) \<Rightarrow> (color, cnt, intensity color)) of
                   (color, cnt, i) \<Rightarrow> (- cnt, - i))) = rank"
    by (auto simp: rank_def fun_eq_iff)
  have s: "sortByCountIntensity (map (\<lambda>(color, cnt). (color, cnt, intensity color)) xs)
      = map (\<lambda>(color, cnt). (color, cnt, intensity color)) (sort_key rank xs)" for xs
    unfolding sortByCountIntensity_def sort_key_map k ..
  have f: "map fst (map (\<lambda>(color, cnt). (color, cnt, intensity color)) xs) = map fst xs"
    for xs :: "(color \<times> int) list"
    by (induction xs) auto
  let ?es = "sort_key rank (sortByCount (objectEntries h))"
  let ?f3 = "\<lambda>(color, cnt). (color, cnt, intensity color)"
  let ?T = "take 10 (map fst ?es)"
  have l: "length ?es = length h"
    by (simp add: sortByCount_def length_objectEntries)
  have "take (min 10 (length (map ?f3 ?es))) (map ?f3 ?es) = take 10 (map ?f3 ?es)"
    by (simp add: min_def)
  then have t: "map fst (take (min 10 (length (map ?f3 ?es))) (map ?f3 ?es)) = ?T"
    by (simp only: take_map[symmetric] f)
  have lt: "length ?T = min 10 (length h)"
    by (simp add: sortByCount_def length_objectEntries min.commute)
  then have p: "10 - length ?T = 10 - length h"
    by (simp add: min_def)
  have "length (?T @ replicate (10 - length h) ''#FFFFFF'') = 10"
    using lt by (simp add: min_def)
  then have c: "slice0 (?T @ replicate (10 - length h) ''#FFFFFF'') 10
      = ?T @ replicate (10 - length h) ''#FFFFFF''"
    by (simp add: slice0_def)
  show ?thesis
    unfolding extractTopColors_def Let_def s padLoop_eq
    by (simp only: t p c)
qed

lemma hexToRgb_samples:
  "hexToRgb ''#FF0000'' = (255, 0, 0)" "hexToRgb ''#00FF00'' = (0, 255, 0)"
  "hexToRgb ''#0000FF'' = (0, 0, 255)" "hexToRgb ''#000000'' = (0, 0, 0)"
  by (simp_all add: hexToRgb_def parseInt16_def hexDigitValue_def isWhiteSpace_def
      roundToDouble_def ToInt32_def sar_def and255_def Let_def)

lemma extractTopColors_scenario:
  "extractTopColors [(''#FF0000'', 5), (''#00FF00'', 5), (''#0000FF'', 1)]
     = [''#FF0000'', ''#00FF00'', ''#0000FF'', ''#FFFFFF'', ''#FFFFFF'', ''#FFFFFF'', ''#FFFFFF'',
        ''#FFFFFF'', ''#FFFFFF'', ''#FFFFFF'']"
  by (simp add: extractTopColors_eq objectEntries_plain not_isArrayIndex_hash sortByCount_def
      rank_def intensity_def hexToRgb_samples less_eq_prod_def numeral_eq_Suc)

lemma extractTopColors_brighter:
  "extractTopColors [(''#000000'', 3), (''#0000FF'', 3), (''#00FF00'', 9)]
     = [''#00FF00'', ''#0000FF'', ''#000000'', ''#FFFFFF'', ''#FFFFFF'', ''#FFFFFF'', ''#FFFFFF'',
        ''#FFFFFF'', ''#FFFFFF'', ''#FFFFFF'']"
  by (simp add: extractTopColors_eq objectEntries_plain not_isArrayIndex_hash sortByCount_def
      rank_def intensity_def hexToRgb_samples less_eq_prod_def numeral_eq_Suc)

text \<open>
  Claim C7.  For every histogram, \<open>extractTopColors\<close> returns exactly 10 colours: the
  first ten colours of the entries arranged by descending count and, at equal counts,
  by descending intensity \<open>r + g + b\<close>, entries that neither separates staying in the
  order of \<open>Object.entries\<close>; they are followed by \<open>#FFFFFF\<close> for every slot that the
  histogram does not fill.  Red and green, five times each, stay in their order before
  blue; blue and black, three times each, come brighter first after green.
\<close>

theorem extractTopColors_top10:
  "length (extractTopColors colorCounts) = 10
   \<and> (\<exists>es. mset es = mset colorCounts
         \<and> sorted_wrt spec_before es
         \<and> (\<forall>e. filter (spec_tie e) es = filter (spec_tie e) (objectEntries colorCounts))
         \<and> extractTopColors colorCounts
             = take 10 (map fst es) @ replicate (10 - length colorCounts) ''#FFFFFF'')
   \<and> extractTopColors [(''#FF0000'', 5), (''#00FF00'', 5), (''#0000FF'', 1)]
       = [''#FF0000'', ''#00FF00'', ''#0000FF'', ''#FFFFFF'', ''#FFFFFF'', ''#FFFFFF'',
          ''#FFFFFF'', ''#FFFFFF'', ''#FFFFFF'', ''#FFFFFF'']
   \<and> extractTopColors [(''#000000'', 3), (''#0000FF'', 3), (''#00FF00'', 9)]
       = [''#00FF00'', ''#0000FF'', ''#000000'', ''#FFFFFF'', ''#FFFFFF'', ''#FFFFFF'',
          ''#FFFFFF'', ''#FFFFFF'', ''#FFFFFF'', ''#FFFFFF'']"
proof -
  let ?es = "sort_key rank (sortByCount (objectEntries colorCounts))"
  have m: "mset ?es = mset colorCounts" by (simp add: sortByCount_def mset_objectEntries)
  have s: "sorted_wrt spec_before ?es"
    by (rule sorted_rank_spec_before) (rule sorted_sort_key)
  have "filter (\<lambda>x. rank x = rank e) ?es
      = filter (\<lambda>x. rank x = rank e) (objectEntries colorCounts)" for e
    unfolding sortByCount_def by (rule two_sorts_stable)
  then have st: "\<forall>e. filter (spec_tie e) ?es = filter (spec_tie e) (objectEntries colorCounts)"
    by (simp add: rank_eq_iff)
  have len: "length (extractTopColors colorCounts) = 10"
    by (simp add: extractTopColors_eq sortByCount_def length_objectEntries)
  have e: "\<exists>es. mset es = mset colorCounts
         \<and> sorted_wrt spec_before es
         \<and> (\<forall>e. filter (spec_tie e) es = filter (spec_tie e) (objectEntries colorCounts))
         \<and> extractTopColors colorCounts
             = take 10 (map fst es) @ replicate (10 - length colorCounts) ''#FFFFFF''"
    by (intro exI[of _ ?es] conjI) (rule m s st extractTopColors_eq)+
  show ?thesis
    by (intro conjI) (rule len e extractTopColors_scenario extractTopColors_brighter)+
qed

section \<open>The number of colours reduceColors returns\<close>

text \<open>
  For distinct colours and \<open>k \<ge> 1\<close>, the copy of colorUtils2.js and the loaded copy
  return the colours unchanged when there are at most \<open>k\<close> of them.  When there are more,
  the copy of colorUtils2.js returns exactly \<open>k\<close> colours, and so does the loaded copy
  when no first-image palette is recorded; with a recorded palette it returns as many
  colours as the palette has, up to \<open>k\<close>.
\<close>

lemma reduceColors_length:
  assumes "distinct colors" and "1 \<le> k"
  shows "(length colors \<le> k \<longrightarrow>
            ColorUtils2_reduceColors colors k = Inr colors
          \<and> reduceColors w colors k = Inr (colors, w))
       \<and> (k < length colors \<longrightarrow>
            (\<exists>res. ColorUtils2_reduceColors colors k = Inr res \<and> length res = k)
          \<and> (\<exists>res w'. reduceColors w colors k = Inr (res, w')
                \<and> length res = (case firstPalette w of
                                  None \<Rightarrow> k
                                | Some (palette, counts) \<Rightarrow> min k (length palette))))"
proof (intro conjI impI)
  assume "length colors \<le> k"
  then show "ColorUtils2_reduceColors colors k = Inr colors"
    and "reduceColors w colors k = Inr (colors, w)"
    by (simp_all add: ColorUtils2_reduceColors_def reduceColors_def)
next
  assume k: "k < length colors"
  show "\<exists>res. ColorUtils2_reduceColors colors k = Inr res \<and> length res = k"
    by (rule ColorUtils2_reduceColors_length[OF assms k])
  show "\<exists>res w'. reduceColors w colors k = Inr (res, w')
      \<and> length res = (case firstPalette w of
                        None \<Rightarrow> k
                      | Some (palette, counts) \<Rightarrow> min k (length palette))"
  proof (cases "firstPalette w")
    case None
    from reduceColors_kmeans[OF assms(2) k None] obtain final n where
      r: "length final
            = length (seedCentroids (recordPalette w) colors (map hexToRgb (paletteToUse w colors)) k)"
      "reduceColors w colors k = Inr (map hexOf final, recordPalette w)"
      by blast
    have "length final = k"
      using r(1) seedCentroids_length[OF assms(1), of k] k by simp
    with r(2) None show ?thesis by simp
  next
    case (Some pc)
    obtain palette counts where pc: "pc = (palette, counts)" by (cases pc)
    have "length (sortByFrequency counts palette) = length palette"
      by (simp add: sortByFrequency_def)
    with reduceColors_palette[OF k Some[unfolded pc]] Some pc show ?thesis by simp
  qed
qed

lemma ColorUtils2_reduceColors_three:
  "ColorUtils2_reduceColors threeColors 2 = Inr [''#000000'', ''#080808'']"
  by (simp add: ColorUtils2_reduceColors_def threeColors_def toBase_def hexToRgb_three
      setAdd_def sqDistance_def closer_def Let_def numeral_2_eq_2)

text \<open>
  Claim C1.  The loaded copy does not always return \<open>k\<close> colours when there are more
  than \<open>k\<close>: when the first image had the single colour \<open>#000000\<close>, reducing the three
  distinct colours \<open>#000000\<close>, \<open>#080808\<close>, \<open>#FFFFFF\<close> to \<open>k = 2\<close> returns that one colour.
\<close>

theorem reduceColors_short_palette:
  "distinct threeColors \<and> length threeColors = 3
   \<and> reduceColors (firstImageWindow [''#000000'']) threeColors 2
       = Inr ([''#000000''], firstImageWindow [''#000000''])"
  by (simp add: threeColors_def reduceColors_def firstPalette_def firstImageWindow_def
      sortByFrequency_def)

section \<open>Termination of reduceColors\<close>

subsection \<open>The distance and the mean of a round\<close>

lemma nearestCentroid_euclidean:
  "nearestCentroid [(6, 0, 0), (4, 4, 0)] (0, 0, 0) = 1"
  "nearestCentroid [(3, 0, 0), (0, 3, 0)] (0, 0, 0) = 0"
  by (simp_all add: nearestCentroid_def sqDistance_def closer_def Let_def)

lemma findClosestColor_euclidean:
  "findClosestColor ''#000000'' [''#060000'', ''#040400''] = Some ''#040400''"
  by (simp add: findClosestColor_def sqDistance_def closer_def Let_def
      hexToRgb_def parseInt16_def hexDigitValue_def isWhiteSpace_def
      roundToDouble_def ToInt32_def sar_def and255_def)

lemma meanRgb_rounds: "meanRgb (3, 1, 5) 2 = (2, 1, 3)" "meanRgb (7, 8, 10) 3 = (2, 3, 3)"
  by (simp_all add: meanRgb_def roundDiv_def)

lemma updateCentroids_mean:
  "updateCentroids [(1, 0, 2), (2, 1, 3), (9, 9, 9)] [0, 0, 1] 2 [(0, 0, 0), (5, 5, 5)]
     = Inr [(2, 1, 3), (9, 9, 9)]"
  by (simp add: updateCentroids_def addRgb_def meanRgb_def roundDiv_def upt_0_2)

subsection \<open>The loaded copy\<close>

lemma reduceColors_returns:
  assumes "1 \<le> k"
  shows "\<exists>res w'. reduceColors w colors k = Inr (res, w')"
proof (cases "length colors \<le> k")
  case True
  then show ?thesis by (simp add: reduceColors_def)
next
  case False
  then have k: "k < length colors" by simp
  show ?thesis
  proof (cases "firstPalette w")
    case None
    from reduceColors_kmeans[OF assms k None] show ?thesis by blast
  next
    case (Some pc)
    obtain palette counts where "pc = (palette, counts)" by (cases pc)
    with reduceColors_palette[OF k] Some show ?thesis by blast
  qed
qed

text \<open>
  Colours that are array indices: \<open>Object.keys\<close> lists \<open>100\<close> before \<open>200\<close>, a tie between
  two centroids goes to the lower index, and a mean of two and a half becomes three.
\<close>

lemma seedCentroids_index_keys:
  "seedCentroids noWindow [''200'', ''100'', ''300''] pts 2 = [(0, 1, 0), (0, 2, 0)]"
  by (simp add: seedCentroids_def backfill_def colorFrequency_def countOr0_def
      objectKeys_def objectEntries_def isArrayIndex_def isDigit_def sortByFrequency_def
      hexToRgb_def parseInt16_def hexDigitValue_def isWhiteSpace_def
      roundToDouble_def ToInt32_def sar_def and255_def Let_def)

lemma index_round1:
  "assignLoop [(0, 2, 0), (0, 1, 0), (0, 3, 0)] [0, 0, 0] [(0, 1, 0), (0, 2, 0)]
     = ([1, 0, 1], True)"
  "updateCentroids [(0, 2, 0), (0, 1, 0), (0, 3, 0)] [1, 0, 1] 2 [(0, 1, 0), (0, 2, 0)]
     = Inr [(0, 1, 0), (0, 3, 0)]"
  by (simp_all add: kmeans_eval)

lemma index_round2:
  "assignLoop [(0, 2, 0), (0, 1, 0), (0, 3, 0)] [1, 0, 1] [(0, 1, 0), (0, 3, 0)]
     = ([0, 0, 1], True)"
  "updateCentroids [(0, 2, 0), (0, 1, 0), (0, 3, 0)] [0, 0, 1] 2 [(0, 1, 0), (0, 3, 0)]
     = Inr [(0, 2, 0), (0, 3, 0)]"
  by (simp_all add: kmeans_eval)

lemma index_round3:
  "assignLoop [(0, 2, 0), (0, 1, 0), (0, 3, 0)] [0, 0, 1] [(0, 2, 0), (0, 3, 0)]
     = ([0, 0, 1], False)"
  "updateCentroids [(0, 2, 0), (0, 1, 0), (0, 3, 0)] [0, 0, 1] 2 [(0, 2, 0), (0, 3, 0)]
     = Inr [(0, 2, 0), (0, 3, 0)]"
  by (simp_all add: kmeans_eval)

lemma reduceColors_index_keys:
  "reduceColors noWindow [''200'', ''100'', ''300''] 2 = Inr ([''#000200'', ''#000300''], noWindow)"
proof -
  let ?pts = "[(0, 2, 0), (0, 1, 0), (0, 3, 0)] :: rgb list"
  have p: "map hexToRgb [''200'', ''100'', ''300''] = ?pts"
    by (simp add: hexToRgb_def parseInt16_def hexDigitValue_def isWhiteSpace_def
        roundToDouble_def ToInt32_def sar_def and255_def Let_def)
  have "kmeans ?pts 2 [(0, 1, 0), (0, 2, 0)]
      = kmeansLoop True 0 ?pts 2 [0, 0, 0] [(0, 1, 0), (0, 2, 0)]"
    by (simp add: kmeans_def numeral_3_eq_3)
  also have "\<dots> = kmeansLoop True 1 ?pts 2 [1, 0, 1] [(0, 1, 0), (0, 3, 0)]"
    using kmeansLoop_step[OF _ index_round1, of 0]
    by (simp add: MAX_ITERATIONS_def numeral_2_eq_2 numeral_3_eq_3)
  also have "\<dots> = kmeansLoop True 2 ?pts 2 [0, 0, 1] [(0, 2, 0), (0, 3, 0)]"
    using kmeansLoop_step[OF _ index_round2, of 1]
    by (simp add: MAX_ITERATIONS_def numeral_2_eq_2 numeral_3_eq_3)
  also have "\<dots> = kmeansLoop False 3 ?pts 2 [0, 0, 1] [(0, 2, 0), (0, 3, 0)]"
    using kmeansLoop_step[OF _ index_round3, of 2]
    by (simp add: MAX_ITERATIONS_def numeral_2_eq_2 numeral_3_eq_3)
  finally have k: "kmeans ?pts 2 [(0, 1, 0), (0, 2, 0)] = Inr ([(0, 2, 0), (0, 3, 0)], 3)"
    by (simp add: kmeansLoop_done)
  have h: "hexOf (0, 2, 0) = ''#000200''" "hexOf (0, 3, 0) = ''#000300''"
    using rgbToHex_digits[of 0 2 0] rgbToHex_digits[of 0 3 0]
    by (simp_all add: hexOf_def hexChar_def upperChar_def digitChar_def)
  have w: "firstPalette noWindow = None" "paletteToUse noWindow cs = cs"
    "recordPalette noWindow = noWindow" for cs
    by (simp_all add: firstPalette_def paletteToUse_def recordPalette_def noWindow_def)
  show ?thesis
    unfolding reduceColors_def Let_def w p seedCentroids_index_keys k
    by (simp add: h)
qed

subsection \<open>The older copy\<close>

lemma paletteFill_stuck:
  assumes "length resultColors < k" and "length resultColors < length paletteColors"
    and "Some (paletteColors ! length resultColors) \<in> set resultColors"
  shows "paletteFill paletteColors k resultColors = None"
proof (rule ccontr)
  assume "paletteFill paletteColors k resultColors \<noteq> None"
  then obtain y where y: "paletteFill paletteColors k resultColors = Some y"
    by auto
  define stuck where "stuck =
    (\<lambda>(p :: color list) (n :: nat) (r :: color option list) (z :: color option list).
       \<not> (length r < n \<and> length r < length p \<and> Some (p ! length r) \<in> set r))"
  have "stuck paletteColors k resultColors y"
  proof (rule paletteFill.raw_induct[where P = stuck, OF _ y])
    fix f p n r z
    assume ih: "\<And>p n r z. f p n r = Some z \<Longrightarrow> stuck p n r z"
      and st: "(if length r < n \<and> length r < length p
                then let nextColor = Some (p ! length r) in
                     if nextColor \<notin> set r then f p n (r @ [nextColor]) else f p n r
                else Some r) = Some z"
    show "stuck p n r z"
      unfolding stuck_def
    proof
      assume s: "length r < n \<and> length r < length p \<and> Some (p ! length r) \<in> set r"
      with st have "f p n r = Some z" by (simp add: Let_def)
      from ih[OF this] s show False by (simp add: stuck_def)
    qed
  qed
  with assms show False by (simp add: stuck_def)
qed

lemma paletteFill_done:
  "\<not> (length resultColors < k \<and> length resultColors < length paletteColors)
   \<Longrightarrow> paletteFill paletteColors k resultColors = Some resultColors"
  by (subst paletteFill.simps) auto

lemma hexToRgb_reds:
  "hexToRgb ''#FF0000'' = (255, 0, 0)" "hexToRgb ''#FE0000'' = (254, 0, 0)"
  "hexToRgb ''#FD0000'' = (253, 0, 0)" "hexToRgb ''#000000'' = (0, 0, 0)"
  by (simp_all add: hexToRgb_def parseInt16_def hexDigitValue_def isWhiteSpace_def
      roundToDouble_def ToInt32_def sar_def and255_def Let_def)

lemma findClosestColor_reds:
  "findClosestColor ''#FF0000'' [''#000000'', ''#FF0000''] = Some ''#FF0000''"
  "findClosestColor ''#FE0000'' [''#000000'', ''#FF0000''] = Some ''#FF0000''"
  "findClosestColor ''#FD0000'' [''#000000'', ''#FF0000''] = Some ''#FF0000''"
  by (simp_all add: findClosestColor_def hexToRgb_reds sqDistance_def closer_def Let_def)

lemma existingPalette_red: "existingPalette (Some redPalette) = Some [''#000000'', ''#FF0000'']"
  by (simp add: existingPalette_def redPalette_def)

lemma mapToPalette_reds:
  "mapToPalette threeReds [''#000000'', ''#FF0000''] 2 [] = [Some ''#FF0000'']"
  by (simp add: threeReds_def findClosestColor_reds setAdd_def)

lemma Old_reduceColors_first_image:
  "Old_reduceColors None draw threeColors 2 = Some (Inr [Some ''#040404'', Some ''#FFFFFF''])"
proof -
  have f: "colorFrequency threeColors = [(''#000000'', 1), (''#080808'', 1), (''#FFFFFF'', 1)]"
    by (simp add: threeColors_def colorFrequency_def countOr0_def)
  have s: "sortByFrequency (colorFrequency threeColors) (objectKeys (colorFrequency threeColors))
      = threeColors"
    unfolding f
    by (simp add: objectKeys_plain not_isArrayIndex_hash sortByFrequency_def countOr0_def
        threeColors_def)
  have p: "map hexToRgb threeColors = [(0, 0, 0), (8, 8, 8), (255, 255, 255)]"
    by (simp add: threeColors_def hexToRgb_three)
  have l: "length threeColors = 3" by (simp add: threeColors_def)
  have t: "map hexToRgb (take 2 threeColors) = [(0, 0, 0), (8, 8, 8)]"
    by (simp add: threeColors_def hexToRgb_three)
  show ?thesis
    unfolding Old_reduceColors_def Let_def s
    by (simp add: l existingPalette_def t Old_backfill_def p kmeans_scenario hexOf_samples)
qed

text \<open>
  Claim C8.  The call does not always terminate.  In the older copy, with the palette
  \<open>#000000\<close>, \<open>#FF0000\<close> in \<open>window.colorPalette\<close>, reducing the three reds \<open>#FF0000\<close>,
  \<open>#FE0000\<close>, \<open>#FD0000\<close> to \<open>k = 2\<close> maps every colour to \<open>#FF0000\<close>, so that the result
  holds this one colour; the loop that fills the result from the palette then reads the
  palette at index 1, finds \<open>#FF0000\<close> in the result already, adds nothing, and runs
  forever: the call returns no value.
\<close>

theorem Old_reduceColors_never_returns:
  "length threeReds = 3
   \<and> existingPalette (Some redPalette) = Some [''#000000'', ''#FF0000'']
   \<and> mapToPalette threeReds [''#000000'', ''#FF0000''] 2 [] = [Some ''#FF0000'']
   \<and> Old_reduceColors (Some redPalette) draw threeReds 2 = None"
proof -
  have l: "length threeReds = 3" by (simp add: threeReds_def)
  have "paletteFill [''#000000'', ''#FF0000''] 2 [Some ''#FF0000''] = None"
    by (rule paletteFill_stuck) simp_all
  then have "Old_reduceColors (Some redPalette) draw threeReds 2 = None"
    by (simp add: Old_reduceColors_def l existingPalette_red mapToPalette_reds)
  with l existingPalette_red mapToPalette_reds show ?thesis by simp
qed

section \<open>Nearest match on an empty palette\<close>

text \<open>
  Claim C10.  For every target colour, \<open>findClosestColor\<close> called with an empty candidate
  list raises nothing and returns \<open>palette[0]\<close> of the empty array, the undefined value.
\<close>

theorem findClosestColor_empty_undefined: "findClosestColor target [] = None"
  by (simp add: findClosestColor_def)

end
